theory Spec2Isabelle
  imports
    Main
    "HOL-Library.Log_Nat"
    "HOL-Library.List_Lexorder"
    "HOL-Library.Char_ord"
    "HOL-Library.Word"
begin

text \<open>
  A shallow embedding of the ChainMonitor backend (\<open>monitor.py\<close>, \<open>whale_cex.py\<close>,
  \<open>api_server.py\<close>). Python integers are \<open>int\<close>, Python floats are IEEE 754 binary64
  values with round-to-nearest-even, exceptions are values of a sum type, the SQLite tables
  are lists of records, and everything the program reads from outside (the node, the block
  explorer, the clock, the configuration file) is an argument of the model.
\<close>

section \<open>Python exceptions as values\<close>

text \<open>
  Every exception the modelled code can raise is a constructor of \<open>py_error\<close>; a function
  that may raise returns \<open>py_error + 'a\<close>, with \<open>Inl\<close> for the raise.
  \<open>HTTPException\<close> carries the status code; \<open>ExternalFailure\<close> stands for any
  exception raised inside a library call to the node or the network.
\<close>

datatype py_error =
    TypeError
  | KeyError
  | ValueError
  | ZeroDivisionError
  | OverflowError
  | FileNotFoundError
  | JSONDecodeError
  | RuntimeError
  | HTTPException nat
  | ExternalFailure

section \<open>Python floats\<close>

text \<open>
  A Python \<open>float\<close> is an IEEE 754 binary64 number. A finite one is modelled by its exact
  rational value (the sign of a zero is not observable in the code modelled here: comparisons
  ignore it and division by either zero raises). Arithmetic computes the exact rational
  result and rounds it to the nearest binary64 value, ties to even.
\<close>

datatype pyfloat = Fin rat | PInf | NInf | NaN

definition pow2 :: "int \<Rightarrow> rat" where
  "pow2 k = 2 powi k"

text \<open>\<open>ilog2 a\<close> is the binary exponent of a positive rational: \<open>2^e \<le> a < 2^(e+1)\<close>.\<close>

definition ilog2 :: "rat \<Rightarrow> int" where
  "ilog2 a = (if 1 \<le> a then bitlen \<lfloor>a\<rfloor> - 1 else - bitlen (\<lceil>1 / a\<rceil> - 1))"

definition round_half_even :: "rat \<Rightarrow> int" where
  "round_half_even x =
     (let f = \<lfloor>x\<rfloor>; d = x - of_int f
      in if d < 1 / 2 then f else if 1 / 2 < d then f + 1 else if even f then f else f + 1)"

text \<open>
  Rounding a positive rational to 53 significant bits. The spacing of binary64 numbers
  around \<open>a\<close> is \<open>2^t\<close> with \<open>t = e - 52\<close>, and never finer than the subnormal
  spacing \<open>2^-1074\<close>.
\<close>

definition round_double_abs :: "rat \<Rightarrow> rat" where
  "round_double_abs a =
     (let t = max (ilog2 a - 52) (- 1074)
      in of_int (round_half_even (a / pow2 t)) * pow2 t)"

text \<open>A result that rounds to \<open>2^1024\<close> or beyond is an infinity.\<close>

definition round_double :: "rat \<Rightarrow> pyfloat" where
  "round_double q =
     (if q = 0 then Fin 0
      else let v = round_double_abs \<bar>q\<bar>
           in if pow2 1024 \<le> v then (if 0 < q then PInf else NInf)
              else Fin (if 0 < q then v else - v))"

text \<open>A decimal literal of the source text denotes the nearest binary64 number.\<close>

definition float_literal :: "rat \<Rightarrow> pyfloat" where
  "float_literal q = round_double q"

text \<open>
  Python compares an \<open>int\<close> with a \<open>float\<close> by their exact values, so an integer
  operand of a comparison is embedded exactly, without rounding.
\<close>

definition exact_int :: "int \<Rightarrow> pyfloat" where
  "exact_int n = Fin (of_int n)"

fun float_less :: "pyfloat \<Rightarrow> pyfloat \<Rightarrow> bool" where
  "float_less (Fin a) (Fin b) = (a < b)"
| "float_less (Fin a) PInf = True"
| "float_less NInf (Fin b) = True"
| "float_less NInf PInf = True"
| "float_less _ _ = False"

fun float_le :: "pyfloat \<Rightarrow> pyfloat \<Rightarrow> bool" where
  "float_le (Fin a) (Fin b) = (a \<le> b)"
| "float_le (Fin a) PInf = True"
| "float_le NInf (Fin b) = True"
| "float_le NInf PInf = True"
| "float_le PInf PInf = True"
| "float_le NInf NInf = True"
| "float_le _ _ = False"

text \<open>
  Converting an \<open>int\<close> operand of a mixed operation to \<open>float\<close> rounds correctly and
  raises \<open>OverflowError\<close> when the integer is too large for a binary64 number.
\<close>

definition int_to_float :: "int \<Rightarrow> py_error + pyfloat" where
  "int_to_float n =
     (case round_double (of_int n) of Fin v \<Rightarrow> Inr (Fin v) | _ \<Rightarrow> Inl OverflowError)"

definition signed_inf :: "bool \<Rightarrow> pyfloat" where
  "signed_inf positive = (if positive then PInf else NInf)"

fun float_add :: "pyfloat \<Rightarrow> pyfloat \<Rightarrow> pyfloat" where
  "float_add (Fin a) (Fin b) = round_double (a + b)"
| "float_add NaN _ = NaN"
| "float_add _ NaN = NaN"
| "float_add PInf NInf = NaN"
| "float_add NInf PInf = NaN"
| "float_add PInf _ = PInf"
| "float_add NInf _ = NInf"
| "float_add _ PInf = PInf"
| "float_add _ NInf = NInf"

fun float_mul :: "pyfloat \<Rightarrow> pyfloat \<Rightarrow> pyfloat" where
  "float_mul (Fin a) (Fin b) = round_double (a * b)"
| "float_mul NaN _ = NaN"
| "float_mul _ NaN = NaN"
| "float_mul (Fin a) PInf = (if a = 0 then NaN else signed_inf (0 < a))"
| "float_mul (Fin a) NInf = (if a = 0 then NaN else signed_inf (a < 0))"
| "float_mul PInf (Fin b) = (if b = 0 then NaN else signed_inf (0 < b))"
| "float_mul NInf (Fin b) = (if b = 0 then NaN else signed_inf (b < 0))"
| "float_mul PInf PInf = PInf"
| "float_mul NInf NInf = PInf"
| "float_mul PInf NInf = NInf"
| "float_mul NInf PInf = NInf"

text \<open>\<open>float / float\<close>: a zero divisor raises before anything else is looked at.\<close>

fun float_truediv :: "pyfloat \<Rightarrow> pyfloat \<Rightarrow> py_error + pyfloat" where
  "float_truediv x (Fin b) =
     (if b = 0 then Inl ZeroDivisionError
      else case x of
             Fin a \<Rightarrow> Inr (round_double (a / b))
           | PInf \<Rightarrow> Inr (signed_inf (0 < b))
           | NInf \<Rightarrow> Inr (signed_inf (b < 0))
           | NaN \<Rightarrow> Inr NaN)"
| "float_truediv (Fin a) PInf = Inr (Fin 0)"
| "float_truediv (Fin a) NInf = Inr (Fin 0)"
| "float_truediv _ _ = Inr NaN"

text \<open>The mixed operations \<open>int + float\<close>, \<open>int * float\<close> (and \<open>float * int\<close>), \<open>int / float\<close>.\<close>

definition int_add_float :: "int \<Rightarrow> pyfloat \<Rightarrow> py_error + pyfloat" where
  "int_add_float n y = (case int_to_float n of Inl e \<Rightarrow> Inl e | Inr x \<Rightarrow> Inr (float_add x y))"

definition int_mul_float :: "int \<Rightarrow> pyfloat \<Rightarrow> py_error + pyfloat" where
  "int_mul_float n y = (case int_to_float n of Inl e \<Rightarrow> Inl e | Inr x \<Rightarrow> Inr (float_mul x y))"

definition int_div_float :: "int \<Rightarrow> pyfloat \<Rightarrow> py_error + pyfloat" where
  "int_div_float n y = (case int_to_float n of Inl e \<Rightarrow> Inl e | Inr x \<Rightarrow> float_truediv x y)"

text \<open>
  \<open>int / int\<close> is the correctly rounded quotient; it raises \<open>ZeroDivisionError\<close> for a
  zero divisor and \<open>OverflowError\<close> when the quotient is too large for a binary64 number.
\<close>

definition int_truediv :: "int \<Rightarrow> int \<Rightarrow> py_error + pyfloat" where
  "int_truediv a b =
     (if b = 0 then Inl ZeroDivisionError
      else case round_double (of_int a / of_int b) of
             Fin v \<Rightarrow> Inr (Fin v)
           | _ \<Rightarrow> Inl OverflowError)"

section \<open>monitor.py: the composite risk score\<close>

text \<open>
  The metrics bundle is the dictionary built by \<open>monitor_loop\<close>; all six values are
  Python integers.
\<close>

record metrics =
  dex_volume :: int
  dex_trades :: int
  whale_sell_total :: int
  whale_count_selling :: int
  cex_net_inflow :: int
  pool_liquidity :: int

text \<open>\<open>metrics["pool_liquidity"] or 1\<close>: zero is the only falsy integer.\<close>

definition or_1 :: "int \<Rightarrow> int" where
  "or_1 x = (if x \<noteq> 0 then x else 1)"

text \<open>
  Part A, the ratio \<open>r\<close>:
  \<^verbatim>\<open>baseline_volume = pool_liquidity * 0.01\<close>,
  \<^verbatim>\<open>r = dex_volume / baseline_volume if baseline_volume > 0 else 0\<close>.
\<close>

definition dex_ratio :: "int \<Rightarrow> int \<Rightarrow> py_error + pyfloat" where
  "dex_ratio volume liq =
     (case int_mul_float liq (float_literal (1 / 100)) of
        Inl e \<Rightarrow> Inl e
      | Inr baseline_volume \<Rightarrow>
          if float_less (exact_int 0) baseline_volume
          then int_div_float volume baseline_volume
          else Inr (exact_int 0))"

definition dex_score_of :: "pyfloat \<Rightarrow> int \<Rightarrow> int" where
  "dex_score_of r trades =
     (let dex_score =
            (if float_le (exact_int 1) r \<and> float_less r (exact_int 2) then 10
             else if float_le (exact_int 2) r \<and> float_less r (exact_int 5) then 20
             else if float_le (exact_int 5) r then 30
             else 0)
      in if 200 < trades then dex_score + 10 else dex_score)"

text \<open>Part B, from \<^verbatim>\<open>p = whale_sell_total / pool_liquidity\<close>.\<close>

definition whale_score_of :: "pyfloat \<Rightarrow> int \<Rightarrow> int" where
  "whale_score_of p count_selling =
     (let whale_score =
            (if float_le (float_literal (1 / 1000)) p \<and> float_less p (float_literal (1 / 100)) then 10
             else if float_le (float_literal (1 / 100)) p \<and> float_less p (float_literal (3 / 100)) then 20
             else if float_le (float_literal (3 / 100)) p then 30
             else 0)
      in if 3 \<le> count_selling then whale_score + 5 else whale_score)"

text \<open>
  Part C, the \<open>if\<close>/\<open>elif\<close>/\<open>elif\<close> chain on \<open>cex_net_inflow\<close>. A chained comparison
  evaluates its right operand only when the left comparison holds, and each branch
  multiplies anew; the three definitions below are the three tests in source order.
\<close>

definition cex_third_branch :: "int \<Rightarrow> int \<Rightarrow> py_error + int" where
  "cex_third_branch inflow liq =
     (case int_mul_float liq (float_literal (2 / 100)) of
        Inl e \<Rightarrow> Inl e
      | Inr hi \<Rightarrow> Inr (if float_le hi (exact_int inflow) then 30 else 0))"

definition cex_second_branch :: "int \<Rightarrow> int \<Rightarrow> py_error + int" where
  "cex_second_branch inflow liq =
     (case int_mul_float liq (float_literal (5 / 1000)) of
        Inl e \<Rightarrow> Inl e
      | Inr lo \<Rightarrow>
          if float_le lo (exact_int inflow)
          then (case int_mul_float liq (float_literal (2 / 100)) of
                  Inl e \<Rightarrow> Inl e
                | Inr hi \<Rightarrow>
                    if float_less (exact_int inflow) hi then Inr 20
                    else cex_third_branch inflow liq)
          else cex_third_branch inflow liq)"

definition cex_score_of :: "int \<Rightarrow> int \<Rightarrow> py_error + int" where
  "cex_score_of inflow liq =
     (if 0 < inflow
      then (case int_mul_float liq (float_literal (5 / 1000)) of
              Inl e \<Rightarrow> Inl e
            | Inr lo \<Rightarrow>
                if float_less (exact_int inflow) lo then Inr 10
                else cex_second_branch inflow liq)
      else cex_second_branch inflow liq)"

text \<open>
  The three local variables \<open>dex_score\<close>, \<open>whale_score\<close>, \<open>cex_score\<close> at the point
  where \<open>compute_risk_level\<close> prints them.
\<close>

definition component_scores :: "metrics \<Rightarrow> py_error + (int \<times> int \<times> int)" where
  "component_scores m =
     (let liq = or_1 (pool_liquidity m)
      in case dex_ratio (dex_volume m) liq of
           Inl e \<Rightarrow> Inl e
         | Inr r \<Rightarrow>
             (let dex_score = dex_score_of r (dex_trades m)
              in case int_truediv (whale_sell_total m) liq of
                   Inl e \<Rightarrow> Inl e
                 | Inr p \<Rightarrow>
                     (let whale_score = whale_score_of p (whale_count_selling m)
                      in case cex_score_of (cex_net_inflow m) liq of
                           Inl e \<Rightarrow> Inl e
                         | Inr cex_score \<Rightarrow> Inr (dex_score, whale_score, cex_score))))"

definition level_of_score :: "int \<Rightarrow> int" where
  "level_of_score score =
     (if score < 20 then 0 else if score < 40 then 1 else if score < 70 then 2 else 3)"

definition compute_risk_level :: "metrics \<Rightarrow> py_error + int" where
  "compute_risk_level m =
     (case component_scores m of
        Inl e \<Rightarrow> Inl e
      | Inr (dex_score, whale_score, cex_score) \<Rightarrow>
          Inr (level_of_score (dex_score + whale_score + cex_score)))"

subsection \<open>The scoring rule as the specification words it\<close>

text \<open>
  Section 4.7 of the specification, in its own words and with the arithmetic of the code
  (binary64, every operation rounded to nearest). The liquidity is floored at 1.
\<close>

definition floored_at_1 :: "int \<Rightarrow> int" where
  "floored_at_1 liquidity = max 1 liquidity"

text \<open>
  Component A: \<open>r\<close> in \<open>[1,2)\<close> gives 10, in \<open>[2,5)\<close> gives 20, from 5 on gives 30; more
  than 200 trades add 10.
\<close>

definition dex_table :: "pyfloat \<Rightarrow> int \<Rightarrow> int" where
  "dex_table r trades =
     (if float_le (exact_int 1) r \<and> float_less r (exact_int 2) then 10 else 0)
   + (if float_le (exact_int 2) r \<and> float_less r (exact_int 5) then 20 else 0)
   + (if float_le (exact_int 5) r then 30 else 0)
   + (if 200 < trades then 10 else 0)"

text \<open>
  Component B: \<open>p\<close> in \<open>[0.001, 0.01)\<close> gives 10, in \<open>[0.01, 0.03)\<close> gives 20, from 0.03
  on gives 30; three or more selling whales add 5.
\<close>

definition whale_table :: "pyfloat \<Rightarrow> int \<Rightarrow> int" where
  "whale_table p count_selling =
     (if float_le (float_literal (1 / 1000)) p \<and> float_less p (float_literal (1 / 100)) then 10 else 0)
   + (if float_le (float_literal (1 / 100)) p \<and> float_less p (float_literal (3 / 100)) then 20 else 0)
   + (if float_le (float_literal (3 / 100)) p then 30 else 0)
   + (if 3 \<le> count_selling then 5 else 0)"

text \<open>
  Component C: a net inflow in \<open>(0, lo)\<close> gives 10, in \<open>[lo, hi)\<close> gives 20, from \<open>hi\<close> on
  gives 30, where \<open>lo\<close> and \<open>hi\<close> are 0.005 and 0.02 times the liquidity; a negative or
  zero net inflow contributes 0.
\<close>

definition cex_table :: "int \<Rightarrow> pyfloat \<Rightarrow> pyfloat \<Rightarrow> int" where
  "cex_table inflow lo hi =
     (if 0 < inflow \<and> float_less (exact_int inflow) lo then 10 else 0)
   + (if 0 < inflow \<and> float_le lo (exact_int inflow) \<and> float_less (exact_int inflow) hi
      then 20 else 0)
   + (if 0 < inflow \<and> float_le hi (exact_int inflow) then 30 else 0)"

text \<open>
  The same rule read over the rationals, with no rounding anywhere: liquidity floored at 1,
  \<open>r = dexVolume / (poolLiquidity \<times> 0.01)\<close> (0 if the baseline is 0),
  \<open>p = whaleSellTotal / poolLiquidity\<close>.
\<close>

definition spec_risk_level_exact :: "metrics \<Rightarrow> int" where
  "spec_risk_level_exact m =
     (let liq = (of_int (floored_at_1 (pool_liquidity m)) :: rat);
          baseline = liq * (1 / 100);
          r = (if baseline = 0 then 0 else of_int (dex_volume m) / baseline);
          p = of_int (whale_sell_total m) / liq;
          c = (of_int (cex_net_inflow m) :: rat);
          a_score = (if 1 \<le> r \<and> r < 2 then 10 else 0) + (if 2 \<le> r \<and> r < 5 then 20 else 0)
                  + (if 5 \<le> r then 30 else 0) + (if 200 < dex_trades m then 10 else 0);
          b_score = (if 1 / 1000 \<le> p \<and> p < 1 / 100 then 10 else 0)
                  + (if 1 / 100 \<le> p \<and> p < 3 / 100 then 20 else 0)
                  + (if 3 / 100 \<le> p then 30 else 0)
                  + (if 3 \<le> whale_count_selling m then 5 else 0);
          c_score = (if 0 < c \<and> c < 5 / 1000 * liq then 10 else 0)
                  + (if 0 < c \<and> 5 / 1000 * liq \<le> c \<and> c < 2 / 100 * liq then 20 else 0)
                  + (if 0 < c \<and> 2 / 100 * liq \<le> c then 30 else 0)
      in level_of_score (a_score + b_score + c_score))"

text \<open>The integers that are safely inside the range of binary64.\<close>

definition in_double_range :: "metrics \<Rightarrow> bool" where
  "in_double_range m \<longleftrightarrow>
     \<bar>pool_liquidity m\<bar> < 2 ^ 1023 \<and> \<bar>dex_volume m\<bar> < 2 ^ 1023 \<and> \<bar>whale_sell_total m\<bar> < 2 ^ 1023"

section \<open>whale\_cex.py\<close>

subsection \<open>What the program reads from the chain and the block explorer\<close>

text \<open>
  One transaction object of the explorer's \<open>txlist\<close> answer. The code reads the keys
  \<open>from\<close>, \<open>to\<close> and \<open>value\<close>; the value is a decimal string of Wei and is held here
  already parsed.
\<close>

record explorer_tx =
  tx_from :: string
  tx_to :: string
  tx_value :: int

text \<open>
  The outcome of one HTTP request: \<open>requests.get\<close> or \<open>resp.json()\<close> raised, or a JSON
  object with its \<open>status\<close> and \<open>result\<close> arrived.
\<close>

datatype explorer_reply = RequestFails | Reply string "explorer_tx list"

text \<open>The outcome of the \<open>getReserves\<close> read inside \<open>estimate_pool_liquidity\<close>.\<close>

datatype reserves_call = CallRaises | CallReturns int int int

text \<open>
  Everything outside the process that \<open>whale_cex.py\<close> consults: the explorer key from the
  process environment, the head block number of a network (getting it may raise), the
  address checksum of web3 (which rejects malformed addresses), the explorer answer for a
  base URL, an address and a block range, and the reserve read for a pair address.
\<close>

record chain_env =
  etherscan_api_key :: "string option"
  block_number :: "string \<Rightarrow> py_error + int"
  to_checksum_address :: "string \<Rightarrow> py_error + string"
  explorer :: "string \<Rightarrow> string \<Rightarrow> int \<Rightarrow> int \<Rightarrow> explorer_reply"
  get_reserves :: "string \<Rightarrow> string \<Rightarrow> reserves_call"

subsection \<open>Strings\<close>

definition lower_char :: "char \<Rightarrow> char" where
  "lower_char c =
     (if CHR ''A'' \<le> c \<and> c \<le> CHR ''Z'' then char_of (of_char c + (32 :: nat)) else c)"

definition lower :: "string \<Rightarrow> string" where
  "lower s = map lower_char s"

subsection \<open>Explorer helpers\<close>

definition etherscan_base_url :: "string \<Rightarrow> string" where
  "etherscan_base_url network =
     (let network = lower network
      in if network = ''mainnet'' \<or> network = ''ethereum'' then ''https://api.etherscan.io/api''
         else if network = ''sepolia'' \<or> network = ''sepolia-testnet''
              then ''https://api-sepolia.etherscan.io/api''
         else ''https://api.etherscan.io/api'')"

definition etherscan_get :: "chain_env \<Rightarrow> string \<Rightarrow> int \<Rightarrow> int \<Rightarrow> string \<Rightarrow> explorer_tx list" where
  "etherscan_get env address start_block end_block network =
     (if etherscan_api_key env = None \<or> etherscan_api_key env = Some [] then []
      else case explorer env (etherscan_base_url network) address start_block end_block of
             RequestFails \<Rightarrow> []
           | Reply status result \<Rightarrow> if status \<noteq> ''1'' then [] else result)"

definition fetch_normal_txs_in_range ::
  "chain_env \<Rightarrow> string \<Rightarrow> int \<Rightarrow> int \<Rightarrow> string \<Rightarrow> py_error + explorer_tx list" where
  "fetch_normal_txs_in_range env address start_block end_block network =
     (case to_checksum_address env address of
        Inl e \<Rightarrow> Inl e
      | Inr address \<Rightarrow> Inr (etherscan_get env address start_block end_block network))"

subsection \<open>Whale and exchange metrics\<close>

definition whale_sell_of :: "string \<Rightarrow> string set \<Rightarrow> explorer_tx list \<Rightarrow> int" where
  "whale_sell_of whale cex_set txs =
     sum_list (map tx_value
       (filter (\<lambda>tx. lower (tx_from tx) = lower whale \<and> lower (tx_to tx) \<in> cex_set) txs))"

fun whales_loop ::
  "chain_env \<Rightarrow> string set \<Rightarrow> int \<Rightarrow> int \<Rightarrow> string \<Rightarrow> string list \<Rightarrow> int \<times> int
     \<Rightarrow> py_error + (int \<times> int)" where
  "whales_loop env cex_set start_block latest network [] (sell_total, count_selling) =
     Inr (sell_total, count_selling)"
| "whales_loop env cex_set start_block latest network (whale # rest)
     (sell_total, count_selling) =
     (case to_checksum_address env whale of
        Inl e \<Rightarrow> Inl e
      | Inr whale \<Rightarrow>
          (case fetch_normal_txs_in_range env whale start_block latest network of
             Inl e \<Rightarrow> Inl e
           | Inr txs \<Rightarrow>
               (let this_whale_sell = whale_sell_of whale cex_set txs
                in if 0 < this_whale_sell
                   then whales_loop env cex_set start_block latest network rest
                          (sell_total + this_whale_sell, count_selling + 1)
                   else whales_loop env cex_set start_block latest network rest
                          (sell_total, count_selling))))"

text \<open>The body of \<open>fetch_whale_metrics\<close>, with every parameter bound.\<close>

definition fetch_whale_metrics ::
  "chain_env \<Rightarrow> string list \<Rightarrow> string list \<Rightarrow> string \<Rightarrow> int \<Rightarrow> string \<Rightarrow> py_error + (int \<times> int)" where
  "fetch_whale_metrics env whales cex_addresses pair_address blocks_back network =
     (if whales = [] then Inr (0, 0)
      else case block_number env network of
             Inl e \<Rightarrow> Inl e
           | Inr latest \<Rightarrow>
               (let start_block = max 0 (latest - blocks_back);
                    cex_set = insert (lower pair_address) (set (map lower cex_addresses))
                in whales_loop env cex_set start_block latest network whales (0, 0)))"

text \<open>
  A call of \<open>fetch_whale_metrics\<close> by keyword. The signature is
  \<^verbatim>\<open>(whales, cex_addresses, pair_address, blocks_back=2000, network="mainnet")\<close>:
  a keyword the caller leaves out is \<open>None\<close> here; the two parameters with defaults fall
  back to them, and a missing \<open>pair_address\<close>, which has no default, makes the call raise
  \<open>TypeError\<close> before the body runs.
\<close>

definition call_fetch_whale_metrics ::
  "chain_env \<Rightarrow> string list \<Rightarrow> string list \<Rightarrow> string option \<Rightarrow> int option \<Rightarrow> string option
     \<Rightarrow> py_error + (int \<times> int)" where
  "call_fetch_whale_metrics env whales cex_addresses pair_address blocks_back network =
     (case pair_address of
        None \<Rightarrow> Inl TypeError
      | Some pair \<Rightarrow>
          fetch_whale_metrics env whales cex_addresses pair
            (case blocks_back of None \<Rightarrow> 2000 | Some b \<Rightarrow> b)
            (case network of None \<Rightarrow> ''mainnet'' | Some n \<Rightarrow> n))"

fun cex_flows :: "string \<Rightarrow> explorer_tx list \<Rightarrow> int \<times> int \<Rightarrow> int \<times> int" where
  "cex_flows cex [] (total_in, total_out) = (total_in, total_out)"
| "cex_flows cex (tx # txs) (total_in, total_out) =
     (let frm = lower (tx_from tx); to = lower (tx_to tx); value_wei = tx_value tx
      in if to = lower cex \<and> frm \<noteq> lower cex then cex_flows cex txs (total_in + value_wei, total_out)
         else if frm = lower cex \<and> to \<noteq> lower cex then cex_flows cex txs (total_in, total_out + value_wei)
         else cex_flows cex txs (total_in, total_out))"

fun cex_loop ::
  "chain_env \<Rightarrow> int \<Rightarrow> int \<Rightarrow> string \<Rightarrow> string list \<Rightarrow> int \<times> int \<Rightarrow> py_error + (int \<times> int)" where
  "cex_loop env start_block latest network [] totals = Inr totals"
| "cex_loop env start_block latest network (cex # rest) totals =
     (case to_checksum_address env cex of
        Inl e \<Rightarrow> Inl e
      | Inr cex \<Rightarrow>
          (case fetch_normal_txs_in_range env cex start_block latest network of
             Inl e \<Rightarrow> Inl e
           | Inr txs \<Rightarrow> cex_loop env start_block latest network rest (cex_flows cex txs totals)))"

definition fetch_cex_net_inflow ::
  "chain_env \<Rightarrow> string list \<Rightarrow> int \<Rightarrow> string \<Rightarrow> py_error + int" where
  "fetch_cex_net_inflow env cex_addresses blocks_back network =
     (if cex_addresses = [] then Inr 0
      else case block_number env network of
             Inl e \<Rightarrow> Inl e
           | Inr latest \<Rightarrow>
               (let start_block = max 0 (latest - blocks_back)
                in case cex_loop env start_block latest network cex_addresses (0, 0) of
                     Inl e \<Rightarrow> Inl e
                   | Inr (total_in, total_out) \<Rightarrow> Inr (total_in - total_out)))"

subsection \<open>Pool liquidity estimate\<close>

text \<open>
  \<open>estimate_pool_liquidity\<close> wraps the whole contract read in \<open>try ... except Exception\<close>,
  so any failure of the read is one case, \<open>CallRaises\<close>.
\<close>

definition FALLBACK_LIQUIDITY :: int where
  "FALLBACK_LIQUIDITY = 10 ^ 24"

definition estimate_pool_liquidity :: "chain_env \<Rightarrow> string \<Rightarrow> string \<Rightarrow> int" where
  "estimate_pool_liquidity env pair_address network =
     (case get_reserves env network pair_address of
        CallRaises \<Rightarrow> FALLBACK_LIQUIDITY
      | CallReturns reserve0 reserve1 ts \<Rightarrow>
          (let liquidity = reserve0 + reserve1
           in if liquidity \<le> 0 then FALLBACK_LIQUIDITY else liquidity))"

section \<open>Market configuration\<close>

text \<open>
  One object of \<open>markets.json\<close>. The code reads the keys \<open>label\<close>, \<open>type\<close>,
  \<open>address\<close> and \<open>pairAddress\<close>, each of which may be absent from the object.
\<close>

record market_entry =
  entry_label :: "string option"
  entry_type :: "string option"
  entry_address :: "string option"
  entry_pairAddress :: "string option"

text \<open>
  What \<open>open\<close> followed by \<open>json.load\<close> finds at \<open>MARKETS_PATH\<close>: no file, a file that
  is not JSON, or a parsed list of objects.
\<close>

datatype config_file = FileMissing | FileMalformed | FileParsed "market_entry list"

text \<open>monitor.py, \<open>load_markets\<close>: no exception handler at all.\<close>

definition load_markets :: "config_file \<Rightarrow> py_error + market_entry list" where
  "load_markets f =
     (case f of
        FileMissing \<Rightarrow> Inl FileNotFoundError
      | FileMalformed \<Rightarrow> Inl JSONDecodeError
      | FileParsed ms \<Rightarrow> Inr ms)"

text \<open>api\_server.py, \<open>load_markets_config\<close>: only \<open>FileNotFoundError\<close> is caught.\<close>

definition load_markets_config :: "config_file \<Rightarrow> py_error + market_entry list" where
  "load_markets_config f =
     (case load_markets f of
        Inl FileNotFoundError \<Rightarrow> Inr []
      | Inl e \<Rightarrow> Inl e
      | Inr ms \<Rightarrow> Inr ms)"

fun get_default_dex_market :: "market_entry list \<Rightarrow> py_error + market_entry" where
  "get_default_dex_market [] = Inl RuntimeError"
| "get_default_dex_market (m # ms) =
     (if entry_type m = Some ''dex_pool'' then Inr m else get_default_dex_market ms)"

subsection \<open>Market identifiers\<close>

text \<open>
  \<open>Web3.keccak(text=label)\<close> is a library function; it is a parameter \<open>keccak\<close> of every
  definition that hashes a label. Its result is a \<open>HexBytes\<close> value, whose \<open>hex()\<close>
  method renders the bytes in lower-case hexadecimal after the prefix \<open>0x\<close>.
\<close>

type_synonym byte = "8 word"

definition hex_digit :: "nat \<Rightarrow> char" where
  "hex_digit n = ''0123456789abcdef'' ! n"

definition hex_byte :: "byte \<Rightarrow> string" where
  "hex_byte b = [hex_digit (unat b div 16), hex_digit (unat b mod 16)]"

definition hexbytes_hex :: "byte list \<Rightarrow> string" where
  "hexbytes_hex bs = ''0x'' @ concat (map hex_byte bs)"

text \<open>monitor.py: \<open>calc_market_id\<close> returns the digest itself.\<close>

definition monitor_calc_market_id :: "(string \<Rightarrow> byte list) \<Rightarrow> string \<Rightarrow> byte list" where
  "monitor_calc_market_id keccak label = keccak label"

text \<open>api\_server.py: \<open>calc_market_id\<close> returns the digest rendered by \<open>hex()\<close>.\<close>

definition api_calc_market_id :: "(string \<Rightarrow> byte list) \<Rightarrow> string \<Rightarrow> string" where
  "api_calc_market_id keccak label = hexbytes_hex (keccak label)"

section \<open>The persisted tables\<close>

text \<open>
  One row of the \<open>risk_levels\<close> table, \<open>(id, market_id, level, source, created_at)\<close>.
  The table is the list of its rows. \<open>created_at\<close> is a text timestamp, ordered as SQLite
  orders text, byte by byte.
\<close>

record risk_level_row =
  row_id :: int
  row_market_id :: string
  row_level :: int
  row_source :: string
  row_created_at :: string

section \<open>api\_server.py\<close>

text \<open>The expression \<^verbatim>\<open>level * 25 + 12.5\<close> of both endpoints: \<open>int + float\<close>.\<close>

definition score_of_level :: "int \<Rightarrow> py_error + pyfloat" where
  "score_of_level level = int_add_float (level * 25) (float_literal (25 / 2))"

text \<open>
  \<^verbatim>\<open>SELECT level, created_at FROM risk_levels WHERE market_id = ? ORDER BY created_at DESC LIMIT 1\<close>.
  SQL leaves the order of rows with equal \<open>created_at\<close> open; here the later row of the
  table comes first among them.
\<close>

definition select_latest :: "risk_level_row list \<Rightarrow> string \<Rightarrow> risk_level_row option" where
  "select_latest rows market_id =
     (case rev (sort_key row_created_at (filter (\<lambda>r. row_market_id r = market_id) rows)) of
        [] \<Rightarrow> None
      | r # _ \<Rightarrow> Some r)"

definition get_latest_risk_level ::
  "risk_level_row list \<Rightarrow> string \<Rightarrow> py_error + (int \<times> pyfloat \<times> string option)" where
  "get_latest_risk_level rows market_id =
     (case select_latest rows market_id of
        Some row \<Rightarrow>
          (case score_of_level (row_level row) of
             Inl e \<Rightarrow> Inl e
           | Inr score \<Rightarrow> Inr (row_level row, score, Some (row_created_at row)))
      | None \<Rightarrow> Inr (0, Fin 0, None))"

subsection \<open>Market list and market detail\<close>

record market =
  m_id :: string
  m_label :: string
  m_type :: string
  m_address :: string
  token0 :: string
  token1 :: string
  riskLevel :: int
  riskScore :: pyfloat
  lastUpdated :: "string option"
  isActive :: bool

text \<open>\<open>label.split("_")\<close> and the two tokens taken from its last two parts.\<close>

fun split_on :: "char \<Rightarrow> string \<Rightarrow> string list" where
  "split_on sep [] = [[]]"
| "split_on sep (c # cs) =
     (if c = sep then [] # split_on sep cs
      else case split_on sep cs of
             p # ps \<Rightarrow> (c # p) # ps
           | [] \<Rightarrow> [[c]])"

definition label_tokens :: "string \<Rightarrow> string \<times> string" where
  "label_tokens label =
     (let parts = split_on CHR ''_'' label
      in (if 2 \<le> length parts then parts ! (length parts - 2) else ''TOKEN0'',
          if 1 \<le> length parts then last parts else ''TOKEN1''))"

text \<open>
  \<^verbatim>\<open>config.get("pairAddress") or config.get("address", "")\<close> and
  \<^verbatim>\<open>config.get("type", "dex_pool")\<close>.
\<close>

definition config_address :: "market_entry \<Rightarrow> string" where
  "config_address config =
     (case entry_pairAddress config of
        Some a \<Rightarrow> if a \<noteq> [] then a else (case entry_address config of Some b \<Rightarrow> b | None \<Rightarrow> [])
      | None \<Rightarrow> (case entry_address config of Some b \<Rightarrow> b | None \<Rightarrow> []))"

definition config_type :: "market_entry \<Rightarrow> string" where
  "config_type config = (case entry_type config of Some t \<Rightarrow> t | None \<Rightarrow> ''dex_pool'')"

text \<open>The loop of \<open>get_markets\<close>; \<open>config["label"]\<close> raises \<open>KeyError\<close> when the key is absent.\<close>

fun get_markets_loop ::
  "(string \<Rightarrow> byte list) \<Rightarrow> risk_level_row list \<Rightarrow> market_entry list \<Rightarrow> py_error + market list" where
  "get_markets_loop keccak rows [] = Inr []"
| "get_markets_loop keccak rows (config # rest) =
     (if entry_type config \<noteq> Some ''dex_pool'' then get_markets_loop keccak rows rest
      else case entry_label config of
             None \<Rightarrow> Inl KeyError
           | Some label \<Rightarrow>
               (case get_latest_risk_level rows (api_calc_market_id keccak label) of
                  Inl e \<Rightarrow> Inl e
                | Inr (level, score, last_updated) \<Rightarrow>
                    (let (t0, t1) =
                           (if entry_pairAddress config \<noteq> None \<or> entry_address config \<noteq> None
                            then label_tokens label else (''TOKEN0'', ''TOKEN1''));
                         m = \<lparr>m_id = label, m_label = label,
                              m_type = config_type config,
                              m_address = config_address config,
                              token0 = t0, token1 = t1,
                              riskLevel = level, riskScore = score,
                              lastUpdated = last_updated, isActive = True\<rparr>
                     in case get_markets_loop keccak rows rest of
                          Inl e \<Rightarrow> Inl e
                        | Inr ms \<Rightarrow> Inr (m # ms))))"

definition get_markets ::
  "(string \<Rightarrow> byte list) \<Rightarrow> config_file \<Rightarrow> risk_level_row list \<Rightarrow> py_error + market list" where
  "get_markets keccak file rows =
     (case load_markets_config file of
        Inl e \<Rightarrow> Inl e
      | Inr markets_config \<Rightarrow> get_markets_loop keccak rows markets_config)"

text \<open>The search loop of \<open>get_market_detail\<close> and the 404 when nothing matches.\<close>

fun find_market_config :: "string \<Rightarrow> market_entry list \<Rightarrow> py_error + market_entry option" where
  "find_market_config wanted [] = Inr None"
| "find_market_config wanted (config # rest) =
     (case entry_label config of
        None \<Rightarrow> Inl KeyError
      | Some label \<Rightarrow> if label = wanted then Inr (Some config) else find_market_config wanted rest)"

definition get_market_detail ::
  "(string \<Rightarrow> byte list) \<Rightarrow> config_file \<Rightarrow> risk_level_row list \<Rightarrow> string \<Rightarrow> py_error + market" where
  "get_market_detail keccak file rows wanted =
     (case load_markets_config file of
        Inl e \<Rightarrow> Inl e
      | Inr markets_config \<Rightarrow>
          (case find_market_config wanted markets_config of
             Inl e \<Rightarrow> Inl e
           | Inr None \<Rightarrow> Inl (HTTPException 404)
           | Inr (Some market_config) \<Rightarrow>
               (case get_latest_risk_level rows (api_calc_market_id keccak wanted) of
                  Inl e \<Rightarrow> Inl e
                | Inr (level, score, last_updated) \<Rightarrow>
                    (let (t0, t1) = label_tokens wanted
                     in Inr \<lparr>m_id = wanted, m_label = wanted,
                             m_type = config_type market_config,
                             m_address = config_address market_config,
                             token0 = t0, token1 = t1,
                             riskLevel = level, riskScore = score,
                             lastUpdated = last_updated, isActive = True\<rparr>))))"

subsection \<open>Risk history\<close>

record risk_history_point =
  point_timestamp :: string
  point_level :: int
  point_score :: pyfloat

fun history_points :: "risk_level_row list \<Rightarrow> py_error + risk_history_point list" where
  "history_points [] = Inr []"
| "history_points (row # rest) =
     (case score_of_level (row_level row) of
        Inl e \<Rightarrow> Inl e
      | Inr score \<Rightarrow>
          (case history_points rest of
             Inl e \<Rightarrow> Inl e
           | Inr ps \<Rightarrow>
               Inr (\<lparr>point_timestamp = row_created_at row, point_level = row_level row,
                      point_score = score\<rparr> # ps)))"

text \<open>
  The query parameter \<open>hours\<close> is declared with \<open>ge=1, le=168\<close>, so a value outside is
  answered with status 422 before the handler runs. \<open>cutoff_time\<close> is the ISO text of the
  clock minus \<open>hours\<close>; the clock is outside the program, so the text is an argument.
\<close>

definition get_risk_history ::
  "(string \<Rightarrow> byte list) \<Rightarrow> risk_level_row list \<Rightarrow> string \<Rightarrow> int \<Rightarrow> string
     \<Rightarrow> py_error + risk_history_point list" where
  "get_risk_history keccak rows wanted hours cutoff_time =
     (if hours < 1 \<or> 168 < hours then Inl (HTTPException 422)
      else history_points
             (sort_key row_created_at
                (filter (\<lambda>r. row_market_id r = api_calc_market_id keccak wanted
                              \<and> cutoff_time \<le> row_created_at r) rows)))"

subsection \<open>Alerts\<close>

record alert =
  alert_id :: int
  alert_marketId :: string
  alert_marketLabel :: string
  alert_type :: string
  alert_severity :: string
  alert_previousLevel :: "int option"
  alert_newLevel :: int
  alert_message :: "string option"
  alert_isResolved :: bool
  alert_createdAt :: string

text \<open>
  The correlated subquery: the level of the row of the same market with the greatest
  smaller \<open>id\<close>, or SQL \<open>NULL\<close> when there is none.
\<close>

definition prev_level_of :: "risk_level_row list \<Rightarrow> risk_level_row \<Rightarrow> int option" where
  "prev_level_of rows r1 =
     (case rev (sort_key row_id
                 (filter (\<lambda>r2. row_market_id r2 = row_market_id r1 \<and> row_id r2 < row_id r1) rows)) of
        [] \<Rightarrow> None
      | r2 # _ \<Rightarrow> Some (row_level r2))"

text \<open>The outer query: every row with its predecessor's level, newest first, at most 50.\<close>

definition select_level_changes :: "risk_level_row list \<Rightarrow> (risk_level_row \<times> int option) list" where
  "select_level_changes rows =
     take 50 (map (\<lambda>r1. (r1, prev_level_of rows r1)) (rev (sort_key row_created_at rows)))"

text \<open>
  The dictionary comprehension \<open>market_labels\<close>: a later entry with the same digest
  replaces an earlier one, and an entry without \<open>label\<close> raises \<open>KeyError\<close>.
\<close>

fun build_market_labels ::
  "(string \<Rightarrow> byte list) \<Rightarrow> (string \<rightharpoonup> string) \<Rightarrow> market_entry list \<Rightarrow> py_error + (string \<rightharpoonup> string)" where
  "build_market_labels keccak acc [] = Inr acc"
| "build_market_labels keccak acc (m # rest) =
     (case entry_label m of
        None \<Rightarrow> Inl KeyError
      | Some label \<Rightarrow>
          build_market_labels keccak (acc(api_calc_market_id keccak label \<mapsto> label)) rest)"

text \<open>\<open>severity_map.get(new_level, "low")\<close>.\<close>

definition severity_map :: "int \<Rightarrow> string" where
  "severity_map level =
     (if level = 0 then ''low'' else if level = 1 then ''medium''
      else if level = 2 then ''high'' else if level = 3 then ''critical'' else ''low'')"

text \<open>\<open>str\<close> of an integer and of \<open>None\<close>, for the message of an alert.\<close>

definition digit_char :: "nat \<Rightarrow> char" where
  "digit_char n = ''0123456789'' ! n"

function str_nat :: "nat \<Rightarrow> string" where
  "str_nat n = (if n < 10 then [digit_char n] else str_nat (n div 10) @ [digit_char (n mod 10)])"
  by pat_completeness auto
termination
  by (relation "measure id") auto

definition str_int :: "int \<Rightarrow> string" where
  "str_int i = (if i < 0 then CHR ''-'' # str_nat (nat (- i)) else str_nat (nat i))"

definition str_optional_int :: "int option \<Rightarrow> string" where
  "str_optional_int v = (case v of None \<Rightarrow> ''None'' | Some i \<Rightarrow> str_int i)"

text \<open>The truth value of the optional query parameter: \<open>None\<close> and the empty string are false.\<close>

definition truthy :: "string option \<Rightarrow> bool" where
  "truthy s = (case s of None \<Rightarrow> False | Some v \<Rightarrow> v \<noteq> [])"

fun alerts_loop ::
  "(string \<rightharpoonup> string) \<Rightarrow> string option \<Rightarrow> (risk_level_row \<times> int option) list \<Rightarrow> alert list" where
  "alerts_loop market_labels severity [] = []"
| "alerts_loop market_labels severity ((row, prev_level) # rest) =
     (if prev_level = None \<or> prev_level \<noteq> Some (row_level row)
      then (let alert_severity = severity_map (row_level row)
            in if truthy severity \<and> Some alert_severity \<noteq> severity
               then alerts_loop market_labels severity rest
               else \<lparr>alert_id = row_id row,
                     alert_marketId = row_market_id row,
                     alert_marketLabel =
                       (case market_labels (row_market_id row) of
                          Some label \<Rightarrow> label
                        | None \<Rightarrow> take 8 (row_market_id row)),
                     alert_type = ''risk_level_change'',
                     alert_severity = alert_severity,
                     alert_previousLevel = prev_level,
                     alert_newLevel = row_level row,
                     alert_message =
                       Some (''Risk level changed from '' @ str_optional_int prev_level
                             @ '' to '' @ str_int (row_level row)),
                     alert_isResolved = False,
                     alert_createdAt = row_created_at row\<rparr>
                    # alerts_loop market_labels severity rest)
      else alerts_loop market_labels severity rest)"

definition get_alerts ::
  "(string \<Rightarrow> byte list) \<Rightarrow> config_file \<Rightarrow> risk_level_row list \<Rightarrow> string option
     \<Rightarrow> py_error + alert list" where
  "get_alerts keccak file rows severity =
     (let changes = select_level_changes rows
      in case load_markets_config file of
           Inl e \<Rightarrow> Inl e
         | Inr markets_config \<Rightarrow>
             (case build_market_labels keccak Map.empty markets_config of
                Inl e \<Rightarrow> Inl e
              | Inr market_labels \<Rightarrow> Inr (alerts_loop market_labels severity changes)))"

section \<open>monitor.py: the polling loop\<close>

text \<open>
  One swap returned by \<open>fetch_recent_swaps\<close>; \<open>amount_in\<close> is held as the integer that
  \<open>int(t["amount_in"])\<close> yields.
\<close>

record swap =
  swap_tx_hash :: string
  swap_block_number :: int
  swap_timestamp :: int
  swap_token_in :: string
  swap_token_out :: string
  swap_amount_in :: int
  swap_amount_out :: int

text \<open>
  What one cycle reads from outside: the result of \<open>fetch_recent_swaps\<close> (its module is
  not part of the sources; it returns the swaps or raises), the chain and explorer as
  above, the clock that stamps a new row, the \<open>PRIVATE_KEY\<close> of the process environment,
  and the outcome of signing and broadcasting a transaction (its hash, or a raise).
\<close>

record cycle_env =
  recent_swaps :: "py_error + swap list"
  chain :: chain_env
  clock :: string
  private_key :: "string option"
  broadcast :: "py_error + string"

text \<open>
  The state that survives a cycle: the two tables, the transactions sent to the contract
  (market id and level), and the local variable \<open>last_level\<close>.
\<close>

record monitor_state =
  st_trades :: "swap list"
  st_risk_levels :: "risk_level_row list"
  st_sent :: "(byte list \<times> int) list"
  st_last_level :: "int option"

text \<open>The values \<open>monitor_loop\<close> fixes before the loop starts.\<close>

record monitor_params =
  mp_pair_address :: string
  mp_label :: string
  mp_market_id :: "byte list"
  mp_whales :: "string list"
  mp_cex_addresses :: "string list"
  mp_blocks_back :: int

text \<open>
  Modelled from the spec: \<open>MonitorDatabase.save_trades\<close> (\<open>db.py\<close> is not among the
  sources). A bulk insert of the swaps of the cycle, with no deduplication.
\<close>

definition save_trades :: "swap list \<Rightarrow> monitor_state \<Rightarrow> monitor_state" where
  "save_trades trades st = st\<lparr>st_trades := st_trades st @ trades\<rparr>"

text \<open>
  Modelled from the spec: \<open>MonitorDatabase.save_risk_level\<close> (\<open>db.py\<close> is not among the
  sources). Inserts one new row and never overwrites; \<open>id\<close> is the autoincrement key.
\<close>

definition next_row_id :: "risk_level_row list \<Rightarrow> int" where
  "next_row_id rows = fold max (map row_id rows) 0 + 1"

definition save_risk_level :: "string \<Rightarrow> int \<Rightarrow> string \<Rightarrow> string \<Rightarrow> monitor_state \<Rightarrow> monitor_state" where
  "save_risk_level market_id level source now st =
     st\<lparr>st_risk_levels := st_risk_levels st @
          [\<lparr>row_id = next_row_id (st_risk_levels st), row_market_id = market_id,
            row_level = level, row_source = source, row_created_at = now\<rparr>]\<rparr>"

text \<open>\<open>send_update_risk_tx\<close>: a missing key raises; otherwise the broadcast decides.\<close>

definition send_update_risk_tx :: "cycle_env \<Rightarrow> int \<Rightarrow> byte list \<Rightarrow> py_error + string" where
  "send_update_risk_tx env level market_id =
     (if private_key env = None \<or> private_key env = Some [] then Inl RuntimeError
      else broadcast env)"

text \<open>
  The end of a cycle, from \<open>db.save_risk_level\<close> on: the row is saved first, then the
  contract is updated when the level has changed. A raise keeps the row that was saved.
\<close>

definition persist_and_publish ::
  "monitor_params \<Rightarrow> cycle_env \<Rightarrow> monitor_state \<Rightarrow> int \<Rightarrow> monitor_state \<times> py_error option" where
  "persist_and_publish params env st level =
     (let st = save_risk_level (hexbytes_hex (mp_market_id params)) level ''multi_factor''
                 (clock env) st
      in if st_last_level st = None \<or> Some level \<noteq> st_last_level st
         then (case send_update_risk_tx env level (mp_market_id params) of
                 Inl e \<Rightarrow> (st, Some e)
               | Inr tx_hash \<Rightarrow>
                   (st\<lparr>st_sent := st_sent st @ [(mp_market_id params, level)],
                       st_last_level := Some level\<rparr>, None))
         else (st, None))"

text \<open>
  One pass through the body of \<open>while True\<close>. The result is the state left behind and the
  exception that ended the cycle, if any. Step 3 calls \<open>fetch_whale_metrics\<close> with the
  keywords \<open>whales\<close>, \<open>cex_addresses\<close>, \<open>blocks_back\<close> and \<open>network\<close> only.
\<close>

definition monitor_cycle ::
  "monitor_params \<Rightarrow> cycle_env \<Rightarrow> monitor_state \<Rightarrow> monitor_state \<times> py_error option" where
  "monitor_cycle params env st =
     (case recent_swaps env of
        Inl e \<Rightarrow> (st, Some e)
      | Inr trades \<Rightarrow>
          (let st = save_trades trades st;
               volume = sum_list (map swap_amount_in trades);
               trade_count = int (length trades);
               liquidity = estimate_pool_liquidity (chain env) (mp_pair_address params) ''mainnet''
           in case call_fetch_whale_metrics (chain env) (mp_whales params)
                     (mp_cex_addresses params) None (Some (mp_blocks_back params))
                     (Some ''mainnet'') of
                Inl e \<Rightarrow> (st, Some e)
              | Inr (sell_total, count_selling) \<Rightarrow>
                  (case fetch_cex_net_inflow (chain env) (mp_cex_addresses params)
                          (mp_blocks_back params) ''mainnet'' of
                     Inl e \<Rightarrow> (st, Some e)
                   | Inr net_inflow \<Rightarrow>
                       (case compute_risk_level
                               \<lparr>dex_volume = volume, dex_trades = trade_count,
                                whale_sell_total = sell_total,
                                whale_count_selling = count_selling,
                                cex_net_inflow = net_inflow,
                                pool_liquidity = liquidity\<rparr> of
                          Inl e \<Rightarrow> (st, Some e)
                        | Inr level \<Rightarrow> persist_and_publish params env st level))))"

text \<open>
  The loop over the observations of successive cycles; an exception leaves the loop, as
  nothing in \<open>monitor_loop\<close> catches it. The list is a finite prefix of an unbounded run.
\<close>

fun monitor_run ::
  "monitor_params \<Rightarrow> cycle_env list \<Rightarrow> monitor_state \<Rightarrow> monitor_state \<times> py_error option" where
  "monitor_run params [] st = (st, None)"
| "monitor_run params (env # envs) st =
     (case monitor_cycle params env st of
        (st', Some e) \<Rightarrow> (st', Some e)
      | (st', None) \<Rightarrow> monitor_run params envs st')"

text \<open>
  The start of \<open>monitor_loop\<close>: the database is opened and the contract is attached
  (\<open>started\<close> is the exception either of them raises, if any), then come the first
  \<open>dex_pool\<close> entry, its \<open>pairAddress\<close> and \<open>label\<close>, the market id, and the whale
  and exchange addresses. An entry read with \<open>m["address"]\<close> raises \<open>KeyError\<close> when the
  key is absent.
\<close>

fun addresses_of_type :: "string \<Rightarrow> market_entry list \<Rightarrow> py_error + string list" where
  "addresses_of_type ty [] = Inr []"
| "addresses_of_type ty (m # ms) =
     (if entry_type m = Some ty
      then (case entry_address m of
              None \<Rightarrow> Inl KeyError
            | Some a \<Rightarrow>
                (case addresses_of_type ty ms of Inl e \<Rightarrow> Inl e | Inr others \<Rightarrow> Inr (a # others)))
      else addresses_of_type ty ms)"

definition monitor_params_of ::
  "(string \<Rightarrow> byte list) \<Rightarrow> py_error option \<Rightarrow> config_file \<Rightarrow> int
     \<Rightarrow> py_error + monitor_params" where
  "monitor_params_of keccak started file blocks_back =
     (case started of
        Some e \<Rightarrow> Inl e
      | None \<Rightarrow>
     (case load_markets file of
        Inl e \<Rightarrow> Inl e
      | Inr markets \<Rightarrow>
          (case get_default_dex_market markets of
             Inl e \<Rightarrow> Inl e
           | Inr dex_market \<Rightarrow>
               (case entry_pairAddress dex_market of
                  None \<Rightarrow> Inl KeyError
                | Some pair_address \<Rightarrow>
                    (case entry_label dex_market of
                       None \<Rightarrow> Inl KeyError
                     | Some label \<Rightarrow>
                         (case addresses_of_type ''whale'' markets of
                            Inl e \<Rightarrow> Inl e
                          | Inr whales \<Rightarrow>
                              (case addresses_of_type ''exchange'' markets of
                                 Inl e \<Rightarrow> Inl e
                               | Inr cex_addresses \<Rightarrow>
                                   Inr \<lparr>mp_pair_address = pair_address, mp_label = label,
                                        mp_market_id = monitor_calc_market_id keccak label,
                                        mp_whales = whales,
                                        mp_cex_addresses = cex_addresses,
                                        mp_blocks_back = blocks_back\<rparr>)))))))"

section \<open>Worked inputs\<close>

text \<open>The two test vectors of the specification.\<close>

definition vec82 :: metrics where
  "vec82 = \<lparr>dex_volume = 15000, dex_trades = 50, whale_sell_total = 5000,
             whale_count_selling = 1, cex_net_inflow = 3000, pool_liquidity = 1000000\<rparr>"

definition vec83 :: metrics where
  "vec83 = \<lparr>dex_volume = 60000, dex_trades = 250, whale_sell_total = 40000,
             whale_count_selling = 5, cex_net_inflow = 25000, pool_liquidity = 1000000\<rparr>"

text \<open>
  A pool of 140 units with a volume of 7: over the rationals the ratio is exactly 5, in
  binary64 \<open>140 * 0.01\<close> is \<open>1.4000000000000001\<close> and the ratio is \<open>4.999999999999999\<close>.
\<close>

definition vec140 :: metrics where
  "vec140 = \<lparr>dex_volume = 7, dex_trades = 201, whale_sell_total = 0,
              whale_count_selling = 0, cex_net_inflow = 0, pool_liquidity = 140\<rparr>"

text \<open>A liquidity too large for binary64.\<close>

definition vec_huge :: metrics where
  "vec_huge = \<lparr>dex_volume = 0, dex_trades = 0, whale_sell_total = 0,
               whale_count_selling = 0, cex_net_inflow = 0, pool_liquidity = 2 ^ 1024\<rparr>"

text \<open>
  A bundle of zeros with a negative liquidity, the same bundle with the liquidity floored
  at 1, and a bundle with zero liquidity.
\<close>

definition vec_negative :: metrics where
  "vec_negative = \<lparr>dex_volume = 0, dex_trades = 0, whale_sell_total = 0,
               whale_count_selling = 0, cex_net_inflow = 0, pool_liquidity = - 140\<rparr>"

definition vec_floored :: metrics where
  "vec_floored = vec_negative\<lparr>pool_liquidity := floored_at_1 (pool_liquidity vec_negative)\<rparr>"

definition vec_zero_liquidity :: metrics where
  "vec_zero_liquidity = \<lparr>dex_volume = 1, dex_trades = 0, whale_sell_total = 0,
               whale_count_selling = 0, cex_net_inflow = 0, pool_liquidity = 0\<rparr>"

text \<open>
  A chain environment for the examples: no explorer key, head block 100, every address
  accepted as it is, and a pair whose reserves are 3 and 4.
\<close>

definition reserves_3_4 :: "string \<Rightarrow> string \<Rightarrow> reserves_call" where
  "reserves_3_4 network pair = CallReturns 3 4 0"

definition reserves_empty :: "string \<Rightarrow> string \<Rightarrow> reserves_call" where
  "reserves_empty network pair = CallReturns 0 0 0"

definition reserves_unreachable :: "string \<Rightarrow> string \<Rightarrow> reserves_call" where
  "reserves_unreachable network pair = CallRaises"

definition head_100 :: "string \<Rightarrow> py_error + int" where
  "head_100 network = Inr 100"

definition any_address :: "string \<Rightarrow> py_error + string" where
  "any_address a = Inr a"

definition no_explorer :: "string \<Rightarrow> string \<Rightarrow> int \<Rightarrow> int \<Rightarrow> explorer_reply" where
  "no_explorer url address start_block end_block = RequestFails"

definition example_chain :: chain_env where
  "example_chain = \<lparr>etherscan_api_key = None, block_number = head_100,
                     to_checksum_address = any_address, explorer = no_explorer,
                     get_reserves = reserves_3_4\<rparr>"

text \<open>
  A stand-in for Keccak-256 in the closed examples: 32 bytes that depend on the label
  only through its length. The theorems hold for every digest function.
\<close>

definition stub_digest :: "string \<Rightarrow> byte list" where
  "stub_digest label = replicate 32 (of_nat (length label))"

text \<open>Five rows of one market with levels 0, 0, 1, 1, 2 in insertion order.\<close>

definition five_rows :: "risk_level_row list" where
  "five_rows =
     [\<lparr>row_id = 1, row_market_id = ''0xaa'', row_level = 0, row_source = ''multi_factor'',
       row_created_at = ''2025-01-01T00:00:00''\<rparr>,
      \<lparr>row_id = 2, row_market_id = ''0xaa'', row_level = 0, row_source = ''multi_factor'',
       row_created_at = ''2025-01-01T00:01:00''\<rparr>,
      \<lparr>row_id = 3, row_market_id = ''0xaa'', row_level = 1, row_source = ''multi_factor'',
       row_created_at = ''2025-01-01T00:02:00''\<rparr>,
      \<lparr>row_id = 4, row_market_id = ''0xaa'', row_level = 1, row_source = ''multi_factor'',
       row_created_at = ''2025-01-01T00:03:00''\<rparr>,
      \<lparr>row_id = 5, row_market_id = ''0xaa'', row_level = 2, row_source = ''multi_factor'',
       row_created_at = ''2025-01-01T00:04:00''\<rparr>]"

text \<open>The alerts the endpoint answers for these rows when the configuration file is absent.\<close>

definition five_rows_alerts :: "alert list" where
  "five_rows_alerts =
     [\<lparr>alert_id = 5, alert_marketId = ''0xaa'', alert_marketLabel = ''0xaa'',
       alert_type = ''risk_level_change'', alert_severity = ''high'',
       alert_previousLevel = Some 1, alert_newLevel = 2,
       alert_message = Some ''Risk level changed from 1 to 2'',
       alert_isResolved = False, alert_createdAt = ''2025-01-01T00:04:00''\<rparr>,
      \<lparr>alert_id = 3, alert_marketId = ''0xaa'', alert_marketLabel = ''0xaa'',
       alert_type = ''risk_level_change'', alert_severity = ''medium'',
       alert_previousLevel = Some 0, alert_newLevel = 1,
       alert_message = Some ''Risk level changed from 0 to 1'',
       alert_isResolved = False, alert_createdAt = ''2025-01-01T00:02:00''\<rparr>,
      \<lparr>alert_id = 1, alert_marketId = ''0xaa'', alert_marketLabel = ''0xaa'',
       alert_type = ''risk_level_change'', alert_severity = ''low'',
       alert_previousLevel = None, alert_newLevel = 0,
       alert_message = Some ''Risk level changed from None to 0'',
       alert_isResolved = False, alert_createdAt = ''2025-01-01T00:00:00''\<rparr>]"

text \<open>What an alert says about the transition.\<close>

definition alert_summary :: "alert \<Rightarrow> int \<times> int option \<times> int \<times> string" where
  "alert_summary a = (alert_id a, alert_previousLevel a, alert_newLevel a, alert_severity a)"

text \<open>A configuration with one pool, and the market object the list endpoint builds from it
  while the \<open>risk_levels\<close> table is empty.\<close>

definition one_pool_file :: config_file where
  "one_pool_file =
     FileParsed [\<lparr>entry_label = Some ''UNISWAP_USDC_WETH'', entry_type = Some ''dex_pool'',
                  entry_address = None, entry_pairAddress = Some ''0xpool''\<rparr>]"

definition fresh_market :: market where
  "fresh_market =
     \<lparr>m_id = ''UNISWAP_USDC_WETH'', m_label = ''UNISWAP_USDC_WETH'', m_type = ''dex_pool'',
      m_address = ''0xpool'', token0 = ''USDC'', token1 = ''WETH'',
      riskLevel = 0, riskScore = Fin 0, lastUpdated = None, isActive = True\<rparr>"

text \<open>One row of level 2 for that pool, and the market object then.\<close>

definition one_pool_rows :: "risk_level_row list" where
  "one_pool_rows =
     [\<lparr>row_id = 1, row_market_id = api_calc_market_id stub_digest ''UNISWAP_USDC_WETH'',
       row_level = 2, row_source = ''multi_factor'', row_created_at = ''2025-01-01T00:00:00''\<rparr>]"

definition rated_market :: market where
  "rated_market =
     \<lparr>m_id = ''UNISWAP_USDC_WETH'', m_label = ''UNISWAP_USDC_WETH'', m_type = ''dex_pool'',
      m_address = ''0xpool'', token0 = ''USDC'', token1 = ''WETH'',
      riskLevel = 2, riskScore = Fin (125 / 2), lastUpdated = Some ''2025-01-01T00:00:00'',
      isActive = True\<rparr>"

text \<open>A first cycle of the Monitor: one swap fetched, a key configured, a node that answers.\<close>

definition example_params :: monitor_params where
  "example_params =
     \<lparr>mp_pair_address = ''0xpool'', mp_label = ''UNISWAP_USDC_WETH'',
      mp_market_id = monitor_calc_market_id stub_digest ''UNISWAP_USDC_WETH'',
      mp_whales = [''0xwhale''], mp_cex_addresses = [''0xcex''], mp_blocks_back = 2000\<rparr>"

definition example_swap :: swap where
  "example_swap =
     \<lparr>swap_tx_hash = ''0xabc'', swap_block_number = 99, swap_timestamp = 1735689600,
      swap_token_in = ''USDC'', swap_token_out = ''WETH'',
      swap_amount_in = 15000, swap_amount_out = 4\<rparr>"

definition example_cycle :: cycle_env where
  "example_cycle =
     \<lparr>recent_swaps = Inr [example_swap], chain = example_chain,
      clock = ''2025-01-01T00:00:00'', private_key = Some ''0xkey'',
      broadcast = Inr ''0xtxhash''\<rparr>"

definition initial_state :: monitor_state where
  "initial_state = \<lparr>st_trades = [], st_risk_levels = [], st_sent = [], st_last_level = None\<rparr>"

text \<open>An explorer that knows one transfer of 500 Wei from the whale to the pool, and one
  transfer of 900 Wei received by the whale.\<close>

definition two_transfers :: "string \<Rightarrow> string \<Rightarrow> int \<Rightarrow> int \<Rightarrow> explorer_reply" where
  "two_transfers url address start_block end_block =
     Reply ''1'' [\<lparr>tx_from = ''0xWhale'', tx_to = ''0xPool'', tx_value = 500\<rparr>,
                  \<lparr>tx_from = ''0xother'', tx_to = ''0xwhale'', tx_value = 900\<rparr>]"

definition explorer_chain :: chain_env where
  "explorer_chain = example_chain\<lparr>etherscan_api_key := Some ''key'', explorer := two_transfers\<rparr>"

section \<open>Facts about rounding\<close>

lemma pow2_pos [simp]: "0 < pow2 k"
  by (simp add: pow2_def)

lemma pow2_nonzero [simp]: "pow2 k \<noteq> 0"
  by (simp add: pow2_def)

lemma pow2_nonneg [simp]: "0 \<le> pow2 k"
  by (simp add: pow2_def)

lemma abs_pow2 [simp]: "\<bar>pow2 k\<bar> = pow2 k"
  by (simp add: pow2_def)

lemma pow2_add: "pow2 (i + j) = pow2 i * pow2 j"
  by (simp add: pow2_def power_int_add)

lemma pow2_mono: "i \<le> j \<Longrightarrow> pow2 i \<le> pow2 j"
  by (simp add: pow2_def power_int_increasing)

lemma pow2_strict_mono: "i < j \<Longrightarrow> pow2 i < pow2 j"
  by (simp add: pow2_def power_int_strict_increasing)

lemma pow2_nat: "0 \<le> k \<Longrightarrow> pow2 k = 2 ^ nat k"
  by (simp add: pow2_def power_int_def)

lemma pow2_neg: "k \<le> 0 \<Longrightarrow> pow2 k = 1 / 2 ^ nat (- k)"
  by (cases "k = 0") (simp_all add: pow2_def power_int_def inverse_eq_divide power_one_over)

lemma ilog2_bounds:
  assumes "0 < a"
  shows "pow2 (ilog2 a) \<le> a \<and> a < pow2 (ilog2 a + 1)"
proof (cases "1 \<le> a")
  case True
  define n where "n = \<lfloor>a\<rfloor>"
  have n1: "1 \<le> n" using True by (simp add: n_def le_floor_iff)
  then have b: "2 ^ nat (bitlen n - 1) \<le> n" "n < 2 ^ nat (bitlen n)"
    using bitlen_bounds [of n] by simp_all
  have bl: "1 \<le> bitlen n"
    using n1 bitlen_nonneg [of n] bitlen_eq_zero_iff [of n] by (cases "bitlen n = 0") auto
  have e: "ilog2 a = bitlen n - 1" using True by (simp add: ilog2_def n_def)
  have "(of_int (2 ^ nat (bitlen n - 1)) :: rat) \<le> of_int n"
    using b(1) of_int_le_iff by blast
  also have "\<dots> \<le> a" by (simp add: n_def)
  finally have lo: "pow2 (bitlen n - 1) \<le> a" using bl by (simp add: pow2_nat)
  have "n + 1 \<le> 2 ^ nat (bitlen n)" using b(2) by simp
  then have "(of_int (n + 1) :: rat) \<le> of_int (2 ^ nat (bitlen n))"
    using of_int_le_iff by blast
  moreover have "a < of_int (n + 1)" using floor_correct [of a] by (simp add: n_def)
  ultimately have "a < 2 ^ nat (bitlen n)" by simp
  then have hi: "a < pow2 (bitlen n)" using bl by (simp add: pow2_nat)
  show ?thesis using lo hi e by simp
next
  case False
  then have a1: "a < 1" by simp
  define c where "c = \<lceil>1 / a\<rceil>"
  define k where "k = bitlen (c - 1)"
  have inv: "1 < 1 / a" using assms a1 by (simp add: field_simps)
  then have c2: "2 \<le> c" unfolding c_def by (simp add: le_ceiling_iff)
  then have b: "2 ^ nat (k - 1) \<le> c - 1" "c - 1 < 2 ^ nat k"
    using bitlen_bounds [of "c - 1"] by (simp_all add: k_def)
  have kl: "1 \<le> k"
    using c2 bitlen_nonneg [of "c - 1"] bitlen_eq_zero_iff [of "c - 1"]
    by (cases "k = 0") (auto simp: k_def)
  have e: "ilog2 a = - k" using False by (simp add: ilog2_def c_def k_def)
  have "1 / a \<le> of_int c" by (simp add: c_def)
  also have "(of_int c :: rat) \<le> of_int (2 ^ nat k)"
    using b(2) of_int_le_iff [of c "2 ^ nat k"] by linarith
  finally have "1 / a \<le> 2 ^ nat k" by simp
  then have "1 \<le> 2 ^ nat k * a" using assms by (simp add: field_simps)
  then have lo: "pow2 (- k) \<le> a" using kl by (simp add: pow2_neg field_simps)
  have "(of_int (2 ^ nat (k - 1)) :: rat) \<le> of_int (c - 1)"
    using b(1) of_int_le_iff by blast
  moreover have "of_int (c - 1) < 1 / a"
    unfolding c_def using ceiling_correct [of "1 / a"] by simp
  ultimately have "2 ^ nat (k - 1) < 1 / a" by simp
  then have "2 ^ nat (k - 1) * a < 1" using assms by (simp add: field_simps)
  then have alt: "a < 1 / 2 ^ nat (k - 1)" by (simp add: field_simps)
  have "pow2 (- k + 1) = 1 / 2 ^ nat (k - 1)"
    using kl pow2_neg [of "- k + 1"] by simp
  with alt have hi: "a < pow2 (- k + 1)" by presburger
  show ?thesis using lo hi e by simp
qed

lemma ilog2_unique:
  assumes "0 < a" "pow2 e \<le> a" "a < pow2 (e + 1)"
  shows "ilog2 a = e"
proof -
  have b: "pow2 (ilog2 a) \<le> a" "a < pow2 (ilog2 a + 1)"
    using ilog2_bounds [OF assms(1)] by simp_all
  have "\<not> e + 1 \<le> ilog2 a"
    using pow2_mono [of "e + 1" "ilog2 a"] b(1) assms(3) by auto
  moreover have "\<not> ilog2 a + 1 \<le> e"
    using pow2_mono [of "ilog2 a + 1" e] b(2) assms(2) by auto
  ultimately show ?thesis by simp
qed


lemma round_half_even_near:
  assumes "\<bar>x - of_int m\<bar> < 1 / 2"
  shows "round_half_even x = m"
proof -
  have lo: "of_int m - 1 / 2 < x" and hi: "x < of_int m + 1 / 2"
    using assms by linarith+
  consider "\<lfloor>x\<rfloor> = m" | "\<lfloor>x\<rfloor> = m - 1"
  proof -
    have "of_int (m - 1) \<le> x" using lo by simp
    then have "m - 1 \<le> \<lfloor>x\<rfloor>" by (simp only: le_floor_iff)
    moreover have "x < of_int (m + 1)" using hi by simp
    then have "\<lfloor>x\<rfloor> < m + 1" by (simp only: floor_less_iff)
    ultimately have "\<lfloor>x\<rfloor> = m \<or> \<lfloor>x\<rfloor> = m - 1" by linarith
    then show thesis using that by blast
  qed
  then show ?thesis
  proof cases
    case 1
    then show ?thesis using hi by (simp add: round_half_even_def Let_def)
  next
    case 2
    then show ?thesis using lo by (simp add: round_half_even_def Let_def)
  qed
qed

lemma round_half_even_of_int [simp]: "round_half_even (of_int m) = m"
  using round_half_even_near [of "of_int m" m] by simp

lemma round_half_even_le:
  assumes "x \<le> of_int N"
  shows "round_half_even x \<le> N"
proof (cases "x = of_int N")
  case True
  then show ?thesis by simp
next
  case False
  then have "x < of_int N" using assms by simp
  then have "\<lfloor>x\<rfloor> < N" by (simp only: floor_less_iff)
  moreover have "round_half_even x \<le> \<lfloor>x\<rfloor> + 1"
    by (simp add: round_half_even_def Let_def)
  ultimately show ?thesis by linarith
qed

lemma round_half_even_nonneg: "0 \<le> x \<Longrightarrow> 0 \<le> round_half_even x"
  by (simp add: round_half_even_def Let_def)

lemma round_double_abs_cert:
  assumes "0 < a" "pow2 e \<le> a" "a < pow2 (e + 1)"
    and "\<bar>a / pow2 (max (e - 52) (- 1074)) - of_int m\<bar> < 1 / 2"
  shows "round_double_abs a = of_int m * pow2 (max (e - 52) (- 1074))"
proof -
  have "ilog2 a = e" using assms(1-3) by (rule ilog2_unique)
  then show ?thesis
    using round_half_even_near [OF assms(4)] by (simp add: round_double_abs_def Let_def)
qed

lemma round_double_abs_le:
  assumes "0 < a" "a < pow2 k" "- 1074 \<le> k"
  shows "round_double_abs a \<le> pow2 k"
proof -
  define e where "e = ilog2 a"
  define t where "t = max (e - 52) (- 1074)"
  have b: "pow2 e \<le> a" "a < pow2 (e + 1)"
    using ilog2_bounds [OF assms(1)] by (simp_all add: e_def)
  have ek: "e + 1 \<le> k"
  proof (rule ccontr)
    assume "\<not> e + 1 \<le> k"
    then have "k \<le> e" by simp
    then have "pow2 k \<le> pow2 e" by (rule pow2_mono)
    then show False using b(1) assms(2) by simp
  qed
  have r: "round_double_abs a = of_int (round_half_even (a / pow2 t)) * pow2 t"
    by (simp add: round_double_abs_def Let_def e_def t_def)
  have q: "a / pow2 t < pow2 (e + 1 - t)"
  proof -
    have "pow2 (e + 1) = pow2 (e + 1 - t) * pow2 t"
      using pow2_add [of "e + 1 - t" t] by simp
    then show ?thesis using b(2) by (simp add: pos_divide_less_eq)
  qed
  show ?thesis
  proof (cases "0 \<le> e + 1 - t")
    case True
    then have "pow2 (e + 1 - t) = of_int (2 ^ nat (e + 1 - t))"
      by (simp add: pow2_nat)
    then have "a / pow2 t \<le> of_int (2 ^ nat (e + 1 - t))" using q by simp
    then have "round_half_even (a / pow2 t) \<le> 2 ^ nat (e + 1 - t)"
      by (rule round_half_even_le)
    then have "(of_int (round_half_even (a / pow2 t)) :: rat) \<le> of_int (2 ^ nat (e + 1 - t))"
      by (simp only: of_int_le_iff)
    then have "of_int (round_half_even (a / pow2 t)) \<le> pow2 (e + 1 - t)"
      using True by (simp add: pow2_nat)
    then have "round_double_abs a \<le> pow2 (e + 1 - t) * pow2 t"
      unfolding r by (simp add: mult_right_mono)
    also have "\<dots> = pow2 (e + 1)" using pow2_add [of "e + 1 - t" t] by simp
    also have "\<dots> \<le> pow2 k" using ek by (rule pow2_mono)
    finally show ?thesis .
  next
    case False
    then have "pow2 (e + 1 - t) \<le> pow2 0" by (intro pow2_mono) simp
    moreover have "pow2 0 = 1" by (simp add: pow2_def)
    ultimately have "a / pow2 t \<le> 1" using q by linarith
    then have "a / pow2 t \<le> of_int 1" by simp
    then have "round_half_even (a / pow2 t) \<le> 1" by (rule round_half_even_le)
    then have "(of_int (round_half_even (a / pow2 t)) :: rat) \<le> 1"
      by (metis of_int_le_iff of_int_1)
    then have "round_double_abs a \<le> 1 * pow2 t"
      unfolding r by (intro mult_right_mono) (simp_all add: less_imp_le)
    moreover have "t = - 1074" using False by (simp add: t_def max_def split: if_splits)
    ultimately have "round_double_abs a \<le> pow2 (- 1074)" by simp
    also have "\<dots> \<le> pow2 k" using assms(3) by (rule pow2_mono)
    finally show ?thesis .
  qed
qed

lemma round_double_abs_nonneg:
  assumes "0 < a"
  shows "0 \<le> round_double_abs a"
proof -
  have "0 \<le> a / pow2 (max (ilog2 a - 52) (- 1074))"
    using assms by (intro divide_nonneg_pos) simp_all
  then have "0 \<le> round_half_even (a / pow2 (max (ilog2 a - 52) (- 1074)))"
    by (rule round_half_even_nonneg)
  then show ?thesis
    unfolding round_double_abs_def Let_def
    by (intro mult_nonneg_nonneg) (simp_all add: less_imp_le)
qed

lemma round_double_finite:
  assumes "\<bar>q\<bar> < pow2 1023"
  shows "\<exists>v. round_double q = Fin v \<and> \<bar>v\<bar> \<le> pow2 1023"
proof (cases "q = 0")
  case True
  then show ?thesis by (simp add: round_double_def less_imp_le)
next
  case False
  then have pos: "0 < \<bar>q\<bar>" by simp
  have le: "round_double_abs \<bar>q\<bar> \<le> pow2 1023"
    using pos assms by (rule round_double_abs_le) simp
  have nn: "0 \<le> round_double_abs \<bar>q\<bar>" using pos by (rule round_double_abs_nonneg)
  have "pow2 1023 < pow2 1024" by (rule pow2_strict_mono) simp
  then have nov: "\<not> pow2 1024 \<le> round_double_abs \<bar>q\<bar>" using le by simp
  have "round_double q = Fin (if 0 < q then round_double_abs \<bar>q\<bar> else - round_double_abs \<bar>q\<bar>)"
    using False nov by (simp only: round_double_def Let_def if_False)
  moreover have "\<bar>if 0 < q then round_double_abs \<bar>q\<bar> else - round_double_abs \<bar>q\<bar>\<bar> \<le> pow2 1023"
    using le nn by (simp only: abs_minus_cancel abs_of_nonneg if_distrib [of abs] if_cancel)
  ultimately show ?thesis by blast
qed

lemma round_double_cert:
  assumes "q \<noteq> 0" "pow2 e \<le> \<bar>q\<bar>" "\<bar>q\<bar> < pow2 (e + 1)"
    and "\<bar>\<bar>q\<bar> / pow2 (max (e - 52) (- 1074)) - of_int m\<bar> < 1 / 2"
    and "of_int m * pow2 (max (e - 52) (- 1074)) < pow2 1024"
  shows "round_double q = Fin (sgn q * (of_int m * pow2 (max (e - 52) (- 1074))))"
proof -
  have pos: "0 < \<bar>q\<bar>" using assms(1) by simp
  have "round_double_abs \<bar>q\<bar> = of_int m * pow2 (max (e - 52) (- 1074))"
    using pos assms(2-4) by (rule round_double_abs_cert)
  then show ?thesis
    using assms(1,5) by (simp add: round_double_def Let_def sgn_if not_le)
qed

lemma round_double_abs_exact:
  assumes "0 < a" "a = of_int m * pow2 t'" "m < 2 ^ 53" "- 1074 \<le> t'"
  shows "round_double_abs a = a"
proof -
  define e where "e = ilog2 a"
  define t where "t = max (e - 52) (- 1074)"
  have b: "pow2 e \<le> a" "a < pow2 (e + 1)"
    using ilog2_bounds [OF assms(1)] by (simp_all add: e_def)
  have "(of_int m :: rat) < of_int (2 ^ 53)" using assms(3) by (simp only: of_int_less_iff)
  then have "(of_int m :: rat) < pow2 53" by (simp add: pow2_def)
  then have "a < pow2 53 * pow2 t'" using assms(2) by (simp add: mult_strict_right_mono)
  then have "a < pow2 (53 + t')" by (simp add: pow2_add)
  then have "pow2 e < pow2 (53 + t')" using b(1) by simp
  then have "e < 53 + t'"
    using pow2_mono [of "53 + t'" e] by (cases "e < 53 + t'") auto
  then have tt: "t \<le> t'" using assms(4) by (simp add: t_def)
  have "pow2 t' = pow2 (t' - t) * pow2 t" using pow2_add [of "t' - t" t] by simp
  then have "a / pow2 t = of_int m * pow2 (t' - t)" using assms(2) by simp
  also have "pow2 (t' - t) = of_int (2 ^ nat (t' - t))" using tt by (simp add: pow2_nat)
  finally have "a / pow2 t = of_int (m * 2 ^ nat (t' - t))" by simp
  then have "round_half_even (a / pow2 t) = m * 2 ^ nat (t' - t)"
    by (simp only: round_half_even_of_int)
  then have "round_double_abs a = of_int (m * 2 ^ nat (t' - t)) * pow2 t"
    by (simp add: round_double_abs_def Let_def e_def t_def)
  also have "\<dots> = a / pow2 t * pow2 t"
    using \<open>a / pow2 t = of_int (m * 2 ^ nat (t' - t))\<close> by simp
  also have "\<dots> = a" by simp
  finally show ?thesis .
qed

lemma round_double_exact:
  assumes "q = of_int m * pow2 t'" "\<bar>m\<bar> < 2 ^ 53" "- 1074 \<le> t'" "\<bar>q\<bar> < pow2 1024"
  shows "round_double q = Fin q"
proof (cases "q = 0")
  case True
  then show ?thesis by (simp add: round_double_def)
next
  case False
  have "\<bar>q\<bar> = of_int \<bar>m\<bar> * pow2 t'" using assms(1) by (simp add: abs_mult)
  then have "round_double_abs \<bar>q\<bar> = \<bar>q\<bar>"
    using False assms(2,3) round_double_abs_exact [of "\<bar>q\<bar>" "\<bar>m\<bar>" t'] by simp
  then show ?thesis
    using False assms(4) by (simp add: round_double_def Let_def not_le) 
qed

lemma round_double_of_int:
  assumes "\<bar>n\<bar> < 2 ^ 53"
  shows "round_double (of_int n) = Fin (of_int n)"
proof -
  have "(of_int \<bar>n\<bar> :: rat) < of_int (2 ^ 53)" using assms by (simp only: of_int_less_iff)
  also have "\<dots> \<le> pow2 1024" by (simp add: pow2_def)
  finally have "\<bar>of_int n :: rat\<bar> < pow2 1024" by simp
  then show ?thesis
    using assms round_double_exact [of "of_int n" n 0] by (simp add: pow2_def)
qed

section \<open>Facts about the arithmetic operations\<close>

lemma int_to_float_error: "int_to_float n = Inl e \<Longrightarrow> e = OverflowError"
  by (auto simp: int_to_float_def split: pyfloat.splits)

lemma int_mul_float_error: "int_mul_float n y = Inl e \<Longrightarrow> e = OverflowError"
  by (auto simp: int_mul_float_def split: sum.splits dest: int_to_float_error)

lemma float_truediv_error:
  "float_less (exact_int 0) y \<Longrightarrow> float_truediv x y \<noteq> Inl e"
  by (cases y; cases x) (auto simp: exact_int_def)

lemma int_div_float_error:
  "float_less (exact_int 0) y \<Longrightarrow> int_div_float n y = Inl e \<Longrightarrow> e = OverflowError"
  by (auto simp: int_div_float_def float_truediv_error split: sum.splits dest: int_to_float_error)

lemma int_truediv_error: "b \<noteq> 0 \<Longrightarrow> int_truediv a b = Inl e \<Longrightarrow> e = OverflowError"
  by (auto simp: int_truediv_def split: pyfloat.splits)

lemma int_to_float_small: "\<bar>n\<bar> < 2 ^ 53 \<Longrightarrow> int_to_float n = Inr (Fin (of_int n))"
  by (simp add: int_to_float_def round_double_of_int)

lemma int_mul_float_eval:
  assumes "\<bar>n\<bar> < 2 ^ 53" "round_double (of_int n * c) = R"
  shows "int_mul_float n (Fin c) = Inr R"
  using assms by (simp add: int_mul_float_def int_to_float_small)

lemma int_div_float_eval:
  assumes "\<bar>n\<bar> < 2 ^ 53" "b \<noteq> 0" "round_double (of_int n / b) = R"
  shows "int_div_float n (Fin b) = Inr R"
  using assms by (simp add: int_div_float_def int_to_float_small)

lemma int_truediv_eval:
  assumes "b \<noteq> 0" "round_double (of_int a / of_int b) = Fin v"
  shows "int_truediv a b = Inr (Fin v)"
  using assms by (simp add: int_truediv_def)

subsection \<open>Rounding certificates for the literals and the worked examples\<close>

lemma round_lit_1_100: "round_double (1 / 100) = Fin (5764607523034235 / 576460752303423488)"
  using round_double_cert [of "1 / 100" "- 7" 5764607523034235]
  by (simp add: pow2_def power_int_minus)

lemma float_lit_1_100: "float_literal (1 / 100) = Fin (5764607523034235 / 576460752303423488)"
  unfolding float_literal_def by (rule round_lit_1_100)

lemma round_lit_1_1000: "round_double (1 / 1000) = Fin (1152921504606847 / 1152921504606846976)"
  using round_double_cert [of "1 / 1000" "- 10" 4611686018427388]
  by (simp add: pow2_def power_int_minus)

lemma float_lit_1_1000: "float_literal (1 / 1000) = Fin (1152921504606847 / 1152921504606846976)"
  unfolding float_literal_def by (rule round_lit_1_1000)

lemma round_lit_3_100: "round_double (3 / 100) = Fin (1080863910568919 / 36028797018963968)"
  using round_double_cert [of "3 / 100" "- 6" 8646911284551352]
  by (simp add: pow2_def power_int_minus)

lemma float_lit_3_100: "float_literal (3 / 100) = Fin (1080863910568919 / 36028797018963968)"
  unfolding float_literal_def by (rule round_lit_3_100)

lemma round_lit_5_1000: "round_double (5 / 1000) = Fin (5764607523034235 / 1152921504606846976)"
  using round_double_cert [of "5 / 1000" "- 8" 5764607523034235]
  by (simp add: pow2_def power_int_minus)

lemma float_lit_5_1000: "float_literal (5 / 1000) = Fin (5764607523034235 / 1152921504606846976)"
  unfolding float_literal_def by (rule round_lit_5_1000)

lemma round_lit_2_100: "round_double (2 / 100) = Fin (5764607523034235 / 288230376151711744)"
  using round_double_cert [of "2 / 100" "- 6" 5764607523034235]
  by (simp add: pow2_def power_int_minus)

lemma float_lit_2_100: "float_literal (2 / 100) = Fin (5764607523034235 / 288230376151711744)"
  unfolding float_literal_def by (rule round_lit_2_100)

lemma round_lit_25_2: "round_double (25 / 2) = Fin (25 / 2)"
  using round_double_cert [of "25 / 2" 3 7036874417766400]
  by (simp add: pow2_def power_int_minus)

lemma float_lit_25_2: "float_literal (25 / 2) = Fin (25 / 2)"
  unfolding float_literal_def by (rule round_lit_25_2)

lemma round_liq_1e6_base: "round_double (of_int 1000000 * (5764607523034235 / 576460752303423488)) = Fin (10000)"
  using round_double_cert [of "of_int 1000000 * (5764607523034235 / 576460752303423488)" 13 5497558138880000]
  by (simp add: pow2_def power_int_minus)

lemma liq_1e6_base: "int_mul_float 1000000 (Fin (5764607523034235 / 576460752303423488)) = Inr (Fin (10000))"
  by (rule int_mul_float_eval [OF _ round_liq_1e6_base]) simp

lemma round_liq_1e6_lo: "round_double (of_int 1000000 * (5764607523034235 / 1152921504606846976)) = Fin (5000)"
  using round_double_cert [of "of_int 1000000 * (5764607523034235 / 1152921504606846976)" 12 5497558138880000]
  by (simp add: pow2_def power_int_minus)

lemma liq_1e6_lo: "int_mul_float 1000000 (Fin (5764607523034235 / 1152921504606846976)) = Inr (Fin (5000))"
  by (rule int_mul_float_eval [OF _ round_liq_1e6_lo]) simp

lemma round_liq_1e6_hi: "round_double (of_int 1000000 * (5764607523034235 / 288230376151711744)) = Fin (20000)"
  using round_double_cert [of "of_int 1000000 * (5764607523034235 / 288230376151711744)" 14 5497558138880000]
  by (simp add: pow2_def power_int_minus)

lemma liq_1e6_hi: "int_mul_float 1000000 (Fin (5764607523034235 / 288230376151711744)) = Inr (Fin (20000))"
  by (rule int_mul_float_eval [OF _ round_liq_1e6_hi]) simp

lemma round_v82_ratio: "round_double (of_int 15000 / 10000) = Fin (3 / 2)"
  using round_double_cert [of "of_int 15000 / 10000" 0 6755399441055744]
  by (simp add: pow2_def power_int_minus)

lemma v82_ratio: "int_div_float 15000 (Fin (10000)) = Inr (Fin (3 / 2))"
  by (rule int_div_float_eval [OF _ _ round_v82_ratio]) simp_all

lemma round_v82_whale: "round_double (of_int 5000 / of_int 1000000) = Fin (5764607523034235 / 1152921504606846976)"
  using round_double_cert [of "of_int 5000 / of_int 1000000" "- 8" 5764607523034235]
  by (simp add: pow2_def power_int_minus)

lemma v82_whale: "int_truediv 5000 1000000 = Inr (Fin (5764607523034235 / 1152921504606846976))"
  by (rule int_truediv_eval [OF _ round_v82_whale]) simp

lemma round_v83_ratio: "round_double (of_int 60000 / 10000) = Fin (6)"
  using round_double_cert [of "of_int 60000 / 10000" 2 6755399441055744]
  by (simp add: pow2_def power_int_minus)

lemma v83_ratio: "int_div_float 60000 (Fin (10000)) = Inr (Fin (6))"
  by (rule int_div_float_eval [OF _ _ round_v83_ratio]) simp_all

lemma round_v83_whale: "round_double (of_int 40000 / of_int 1000000) = Fin (5764607523034235 / 144115188075855872)"
  using round_double_cert [of "of_int 40000 / of_int 1000000" "- 5" 5764607523034235]
  by (simp add: pow2_def power_int_minus)

lemma v83_whale: "int_truediv 40000 1000000 = Inr (Fin (5764607523034235 / 144115188075855872))"
  by (rule int_truediv_eval [OF _ round_v83_whale]) simp

lemma round_liq_140_base: "round_double (of_int 140 * (5764607523034235 / 576460752303423488)) = Fin (6305039478318695 / 4503599627370496)"
  using round_double_cert [of "of_int 140 * (5764607523034235 / 576460752303423488)" 0 6305039478318695]
  by (simp add: pow2_def power_int_minus)

lemma liq_140_base: "int_mul_float 140 (Fin (5764607523034235 / 576460752303423488)) = Inr (Fin (6305039478318695 / 4503599627370496))"
  by (rule int_mul_float_eval [OF _ round_liq_140_base]) simp

lemma round_liq_140_lo: "round_double (of_int 140 * (5764607523034235 / 1152921504606846976)) = Fin (6305039478318695 / 9007199254740992)"
  using round_double_cert [of "of_int 140 * (5764607523034235 / 1152921504606846976)" "- 1" 6305039478318695]
  by (simp add: pow2_def power_int_minus)

lemma liq_140_lo: "int_mul_float 140 (Fin (5764607523034235 / 1152921504606846976)) = Inr (Fin (6305039478318695 / 9007199254740992))"
  by (rule int_mul_float_eval [OF _ round_liq_140_lo]) simp

lemma round_liq_140_hi: "round_double (of_int 140 * (5764607523034235 / 288230376151711744)) = Fin (6305039478318695 / 2251799813685248)"
  using round_double_cert [of "of_int 140 * (5764607523034235 / 288230376151711744)" 1 6305039478318695]
  by (simp add: pow2_def power_int_minus)

lemma liq_140_hi: "int_mul_float 140 (Fin (5764607523034235 / 288230376151711744)) = Inr (Fin (6305039478318695 / 2251799813685248))"
  by (rule int_mul_float_eval [OF _ round_liq_140_hi]) simp

lemma round_v140_ratio: "round_double (of_int 7 / (6305039478318695 / 4503599627370496)) = Fin (5629499534213119 / 1125899906842624)"
  using round_double_cert [of "of_int 7 / (6305039478318695 / 4503599627370496)" 2 5629499534213119]
  by (simp add: pow2_def power_int_minus)

lemma v140_ratio: "int_div_float 7 (Fin (6305039478318695 / 4503599627370496)) = Inr (Fin (5629499534213119 / 1125899906842624))"
  by (rule int_div_float_eval [OF _ _ round_v140_ratio]) simp_all

lemma round_liq_1_base: "round_double (of_int 1 * (5764607523034235 / 576460752303423488)) = Fin (5764607523034235 / 576460752303423488)"
  using round_double_cert [of "of_int 1 * (5764607523034235 / 576460752303423488)" "- 7" 5764607523034235]
  by (simp add: pow2_def power_int_minus)

lemma liq_1_base: "int_mul_float 1 (Fin (5764607523034235 / 576460752303423488)) = Inr (Fin (5764607523034235 / 576460752303423488))"
  by (rule int_mul_float_eval [OF _ round_liq_1_base]) simp

lemma round_liq_1_lo: "round_double (of_int 1 * (5764607523034235 / 1152921504606846976)) = Fin (5764607523034235 / 1152921504606846976)"
  using round_double_cert [of "of_int 1 * (5764607523034235 / 1152921504606846976)" "- 8" 5764607523034235]
  by (simp add: pow2_def power_int_minus)

lemma liq_1_lo: "int_mul_float 1 (Fin (5764607523034235 / 1152921504606846976)) = Inr (Fin (5764607523034235 / 1152921504606846976))"
  by (rule int_mul_float_eval [OF _ round_liq_1_lo]) simp

lemma round_liq_1_hi: "round_double (of_int 1 * (5764607523034235 / 288230376151711744)) = Fin (5764607523034235 / 288230376151711744)"
  using round_double_cert [of "of_int 1 * (5764607523034235 / 288230376151711744)" "- 6" 5764607523034235]
  by (simp add: pow2_def power_int_minus)

lemma liq_1_hi: "int_mul_float 1 (Fin (5764607523034235 / 288230376151711744)) = Inr (Fin (5764607523034235 / 288230376151711744))"
  by (rule int_mul_float_eval [OF _ round_liq_1_hi]) simp

lemma round_v1_ratio: "round_double (of_int 1 / (5764607523034235 / 576460752303423488)) = Fin (100)"
  using round_double_cert [of "of_int 1 / (5764607523034235 / 576460752303423488)" 6 7036874417766400]
  by (simp add: pow2_def power_int_minus)

lemma v1_ratio: "int_div_float 1 (Fin (5764607523034235 / 576460752303423488)) = Inr (Fin (100))"
  by (rule int_div_float_eval [OF _ _ round_v1_ratio]) simp_all

lemma round_liq_neg_base: "round_double (of_int (- 140) * (5764607523034235 / 576460752303423488)) = Fin (- (6305039478318695 / 4503599627370496))"
  using round_double_cert [of "of_int (- 140) * (5764607523034235 / 576460752303423488)" 0 6305039478318695]
  by (simp add: pow2_def power_int_minus)

lemma liq_neg_base: "int_mul_float (- 140) (Fin (5764607523034235 / 576460752303423488)) = Inr (Fin (- (6305039478318695 / 4503599627370496)))"
  by (rule int_mul_float_eval [OF _ round_liq_neg_base]) simp

lemma round_liq_neg_lo: "round_double (of_int (- 140) * (5764607523034235 / 1152921504606846976)) = Fin (- (6305039478318695 / 9007199254740992))"
  using round_double_cert [of "of_int (- 140) * (5764607523034235 / 1152921504606846976)" "- 1" 6305039478318695]
  by (simp add: pow2_def power_int_minus)

lemma liq_neg_lo: "int_mul_float (- 140) (Fin (5764607523034235 / 1152921504606846976)) = Inr (Fin (- (6305039478318695 / 9007199254740992)))"
  by (rule int_mul_float_eval [OF _ round_liq_neg_lo]) simp

lemma round_liq_neg_hi: "round_double (of_int (- 140) * (5764607523034235 / 288230376151711744)) = Fin (- (6305039478318695 / 2251799813685248))"
  using round_double_cert [of "of_int (- 140) * (5764607523034235 / 288230376151711744)" 1 6305039478318695]
  by (simp add: pow2_def power_int_minus)

lemma liq_neg_hi: "int_mul_float (- 140) (Fin (5764607523034235 / 288230376151711744)) = Inr (Fin (- (6305039478318695 / 2251799813685248)))"
  by (rule int_mul_float_eval [OF _ round_liq_neg_hi]) simp

section \<open>Rounding is monotone\<close>

lemma round_half_even_ge_floor: "\<lfloor>x\<rfloor> \<le> round_half_even x"
  by (simp add: round_half_even_def Let_def)

lemma round_half_even_le_floor_Suc: "round_half_even x \<le> \<lfloor>x\<rfloor> + 1"
  by (simp add: round_half_even_def Let_def)

lemma round_half_even_mono:
  assumes "x \<le> y"
  shows "round_half_even x \<le> round_half_even y"
proof (cases "\<lfloor>x\<rfloor> = \<lfloor>y\<rfloor>")
  case False
  then have "\<lfloor>x\<rfloor> < \<lfloor>y\<rfloor>" using floor_mono [OF assms] by simp
  then show ?thesis
    using round_half_even_le_floor_Suc [of x] round_half_even_ge_floor [of y] by linarith
next
  case True
  then have "x - of_int \<lfloor>x\<rfloor> \<le> y - of_int \<lfloor>y\<rfloor>" using assms by simp
  then show ?thesis
    using True by (auto simp: round_half_even_def Let_def)
qed

lemma ilog2_mono:
  assumes "0 < x" "x \<le> y"
  shows "ilog2 x \<le> ilog2 y"
proof (rule ccontr)
  assume "\<not> ilog2 x \<le> ilog2 y"
  then have "ilog2 y + 1 \<le> ilog2 x" by simp
  then have "pow2 (ilog2 y + 1) \<le> pow2 (ilog2 x)" by (rule pow2_mono)
  moreover have "pow2 (ilog2 x) \<le> x" using ilog2_bounds [OF assms(1)] by simp
  moreover have "y < pow2 (ilog2 y + 1)" using ilog2_bounds [of y] assms by simp
  ultimately show False using assms(2) by simp
qed

lemma round_double_abs_ge:
  assumes "0 < y" "- 1074 \<le> ilog2 y - 52"
  shows "pow2 (ilog2 y) \<le> round_double_abs y"
proof -
  define e where "e = ilog2 y"
  define t where "t = e - 52"
  have tt: "max (e - 52) (- 1074) = t" using assms(2) by (simp add: t_def e_def)
  have "pow2 e \<le> y" using ilog2_bounds [OF assms(1)] by (simp add: e_def)
  moreover have "pow2 e = pow2 52 * pow2 t" using pow2_add [of 52 t] by (simp add: t_def)
  ultimately have "pow2 52 \<le> y / pow2 t" by (simp add: pos_le_divide_eq)
  moreover have "pow2 52 = of_int (2 ^ 52)" by (simp add: pow2_def)
  ultimately have "round_half_even (of_int (2 ^ 52)) \<le> round_half_even (y / pow2 t)"
    using round_half_even_mono by metis
  then have "(of_int (2 ^ 52) :: rat) \<le> of_int (round_half_even (y / pow2 t))"
    by (simp only: round_half_even_of_int of_int_le_iff)
  then have "pow2 52 * pow2 t \<le> of_int (round_half_even (y / pow2 t)) * pow2 t"
    unfolding \<open>pow2 52 = of_int (2 ^ 52)\<close> by (intro mult_right_mono) simp_all
  then show ?thesis
    unfolding round_double_abs_def Let_def e_def [symmetric] tt
    using \<open>pow2 e = pow2 52 * pow2 t\<close> by simp
qed

lemma round_double_abs_mono:
  assumes "0 < x" "x \<le> y"
  shows "round_double_abs x \<le> round_double_abs y"
proof -
  have y: "0 < y" using assms by simp
  define ex where "ex = ilog2 x"
  define ey where "ey = ilog2 y"
  define tx where "tx = max (ex - 52) (- 1074)"
  define ty where "ty = max (ey - 52) (- 1074)"
  have e: "ex \<le> ey" using ilog2_mono [OF assms] by (simp add: ex_def ey_def)
  show ?thesis
  proof (cases "tx = ty")
    case True
    have "x / pow2 tx \<le> y / pow2 tx" using assms(2) by (simp add: divide_right_mono)
    then have "round_half_even (x / pow2 tx) \<le> round_half_even (y / pow2 tx)"
      by (rule round_half_even_mono)
    then have "(of_int (round_half_even (x / pow2 tx)) :: rat) * pow2 tx
                 \<le> of_int (round_half_even (y / pow2 tx)) * pow2 tx"
      by (intro mult_right_mono) simp_all
    then show ?thesis
      using True by (simp add: round_double_abs_def Let_def ex_def ey_def tx_def ty_def)
  next
    case False
    then have lt: "ex < ey" and ty52: "- 1074 \<le> ey - 52"
      using e by (auto simp: tx_def ty_def max_def split: if_splits)
    have xb: "x < pow2 (max (ex + 1) (- 1074))"
    proof -
      have "x < pow2 (ex + 1)" using ilog2_bounds [OF assms(1)] by (simp add: ex_def)
      also have "\<dots> \<le> pow2 (max (ex + 1) (- 1074))" by (rule pow2_mono) simp
      finally show ?thesis .
    qed
    have "round_double_abs x \<le> pow2 (max (ex + 1) (- 1074))"
      using assms(1) xb by (rule round_double_abs_le) simp
    also have "\<dots> \<le> pow2 ey" using lt ty52 by (intro pow2_mono) simp
    also have "\<dots> \<le> round_double_abs y"
      using round_double_abs_ge [OF y] ty52 by (simp add: ey_def)
    finally show ?thesis .
  qed
qed

lemma round_double_mono_pos:
  assumes "0 < x" "x \<le> y"
  shows "float_le (round_double x) (round_double y)"
proof -
  have y: "0 < y" using assms by simp
  have m: "round_double_abs x \<le> round_double_abs y" using assms by (rule round_double_abs_mono)
  show ?thesis
    using assms(1) y m by (auto simp: round_double_def Let_def)
qed

lemma round_double_nonpos:
  assumes "q \<le> 0"
  shows "\<not> float_less (Fin 0) (round_double q)"
proof (cases "q = 0")
  case True
  then show ?thesis by (simp add: round_double_def)
next
  case False
  then have "0 < \<bar>q\<bar>" by simp
  then have "0 \<le> round_double_abs \<bar>q\<bar>" by (rule round_double_abs_nonneg)
  then show ?thesis
    using assms False by (auto simp: round_double_def Let_def)
qed

lemma float_le_trans: "float_le x y \<Longrightarrow> float_le y z \<Longrightarrow> float_le x z"
  by (cases x; cases y; cases z) auto

lemma float_less_le_trans: "float_less x y \<Longrightarrow> float_le y z \<Longrightarrow> float_less x z"
  by (cases x; cases y; cases z) auto

lemma float_le_less_trans: "float_le x y \<Longrightarrow> float_less y z \<Longrightarrow> float_less x z"
  by (cases x; cases y; cases z) auto

lemma float_less_trans: "float_less x y \<Longrightarrow> float_less y z \<Longrightarrow> float_less x z"
  by (cases x; cases y; cases z) auto

lemma float_less_not_le: "float_less x y \<Longrightarrow> \<not> float_le y x"
  by (cases x; cases y) auto

lemma thresholds_ordered:
  assumes "int_mul_float liq (float_literal (5 / 1000)) = Inr lo"
    and "int_mul_float liq (float_literal (2 / 100)) = Inr hi"
    and "float_less (Fin 0) lo"
  shows "float_le lo hi"
proof -
  obtain l where l: "int_to_float liq = Inr (Fin l)"
  proof (cases "round_double (of_int liq)")
    case (Fin v)
    then show ?thesis using that by (simp add: int_to_float_def)
  qed (use assms(1) in \<open>simp_all add: int_mul_float_def int_to_float_def\<close>)
  have lo: "lo = round_double (l * (5764607523034235 / 1152921504606846976))"
    using assms(1) unfolding float_lit_5_1000 by (simp add: int_mul_float_def l)
  have hi: "hi = round_double (l * (5764607523034235 / 288230376151711744))"
    using assms(2) unfolding float_lit_2_100 by (simp add: int_mul_float_def l)
  have "0 < l"
  proof (rule ccontr)
    assume "\<not> 0 < l"
    then have "l * (5764607523034235 / 1152921504606846976) \<le> 0"
      by (simp add: mult_le_0_iff)
    then show False using assms(3) round_double_nonpos unfolding lo by blast
  qed
  then have "0 < l * (5764607523034235 / 1152921504606846976)"
    and "l * (5764607523034235 / 1152921504606846976) \<le> l * (5764607523034235 / 288230376151711744)"
    by simp_all
  then show ?thesis unfolding lo hi by (rule round_double_mono_pos)
qed

section \<open>Facts about the risk score\<close>

subsection \<open>The only exception is an overflow\<close>

lemma or_1_nonzero: "or_1 x \<noteq> 0"
  by (simp add: or_1_def)

lemma dex_ratio_error: "dex_ratio v l = Inl e \<Longrightarrow> e = OverflowError"
  by (auto simp: dex_ratio_def split: sum.splits if_splits
           dest: int_mul_float_error int_div_float_error)

lemma cex_third_branch_error: "cex_third_branch c l = Inl e \<Longrightarrow> e = OverflowError"
  by (auto simp: cex_third_branch_def split: sum.splits dest: int_mul_float_error)

lemma cex_second_branch_error: "cex_second_branch c l = Inl e \<Longrightarrow> e = OverflowError"
  by (auto simp: cex_second_branch_def split: sum.splits if_splits
           dest: int_mul_float_error cex_third_branch_error)

lemma cex_score_of_error: "cex_score_of c l = Inl e \<Longrightarrow> e = OverflowError"
  by (auto simp: cex_score_of_def split: sum.splits if_splits
           dest: int_mul_float_error cex_second_branch_error)

lemma component_scores_error: "component_scores m = Inl e \<Longrightarrow> e = OverflowError"
  by (auto simp: component_scores_def Let_def split: sum.splits
           dest: dex_ratio_error cex_score_of_error int_truediv_error [OF or_1_nonzero])

lemma compute_risk_level_error: "compute_risk_level m = Inl e \<Longrightarrow> e = OverflowError"
  by (auto simp: compute_risk_level_def split: sum.splits prod.splits
           dest: component_scores_error)

lemma level_of_score_range: "level_of_score s \<in> {0, 1, 2, 3}"
  by (simp add: level_of_score_def)

lemma compute_risk_level_range: "compute_risk_level m = Inr l \<Longrightarrow> l \<in> {0, 1, 2, 3}"
  using level_of_score_range
  by (auto simp: compute_risk_level_def split: sum.splits prod.splits)

subsection \<open>The code's chains and the tables agree\<close>

lemma dex_score_of_table: "dex_score_of r trades = dex_table r trades"
  by (cases r) (simp_all add: dex_score_of_def dex_table_def Let_def exact_int_def)

lemma whale_score_of_table: "whale_score_of p n = whale_table p n"
  unfolding whale_score_of_def whale_table_def Let_def
    float_lit_1_1000 float_lit_1_100 float_lit_3_100
  by (cases p) simp_all

lemma cex_score_of_table:
  assumes lo: "int_mul_float liq (float_literal (5 / 1000)) = Inr lo"
    and hi: "int_mul_float liq (float_literal (2 / 100)) = Inr hi"
    and pos: "float_less (Fin 0) lo"
  shows "cex_score_of inflow liq = Inr (cex_table inflow lo hi)"
proof -
  have ord: "float_le lo hi" using lo hi pos by (rule thresholds_ordered)
  show ?thesis
  proof (cases "0 < inflow")
    case False
    then have "float_le (exact_int inflow) (Fin 0)" by (simp add: exact_int_def)
    then have "float_less (exact_int inflow) lo" using pos float_le_less_trans by blast
    then have "float_less (exact_int inflow) hi" using ord float_less_le_trans by blast
    then have "\<not> float_le hi (exact_int inflow)" by (rule float_less_not_le)
    moreover have "\<not> float_le lo (exact_int inflow)"
      using \<open>float_less (exact_int inflow) lo\<close> by (rule float_less_not_le)
    ultimately show ?thesis
      unfolding cex_score_of_def cex_second_branch_def cex_third_branch_def cex_table_def lo hi
      using False by simp
  next
    case True
    show ?thesis
    proof (cases "float_less (exact_int inflow) lo")
      case below: True
      then have "float_less (exact_int inflow) hi" using ord float_less_le_trans by blast
      then have "\<not> float_le hi (exact_int inflow)" by (rule float_less_not_le)
      moreover have "\<not> float_le lo (exact_int inflow)" using below by (rule float_less_not_le)
      ultimately show ?thesis
        unfolding cex_score_of_def cex_table_def lo
        using True below by simp
    next
      case False
      then show ?thesis
        unfolding cex_score_of_def cex_second_branch_def cex_third_branch_def cex_table_def lo hi
        using True float_less_not_le [of "exact_int inflow" hi] by auto
    qed
  qed
qed

subsection \<open>No overflow inside the range\<close>

lemma of_int_in_range:
  assumes "\<bar>n\<bar> < 2 ^ 1023"
  shows "\<bar>of_int n :: rat\<bar> < pow2 1023"
proof -
  have "(of_int \<bar>n\<bar> :: rat) < of_int (2 ^ 1023)" using assms by (simp only: of_int_less_iff)
  moreover have "(of_int (2 ^ 1023) :: rat) = pow2 1023" by (simp add: pow2_nat)
  ultimately show ?thesis by simp
qed

lemma int_to_float_in_range:
  assumes "\<bar>n\<bar> < 2 ^ 1023"
  shows "\<exists>v. int_to_float n = Inr (Fin v)"
proof -
  obtain v where "round_double (of_int n) = Fin v"
    using round_double_finite [OF of_int_in_range [OF assms]] by blast
  then show ?thesis by (simp add: int_to_float_def)
qed

lemma int_mul_float_in_range:
  assumes "\<bar>n\<bar> < 2 ^ 1023"
  shows "\<exists>b. int_mul_float n y = Inr b"
  using int_to_float_in_range [OF assms] by (auto simp: int_mul_float_def)

lemma int_div_float_in_range:
  assumes "\<bar>n\<bar> < 2 ^ 1023" "float_less (exact_int 0) y"
  shows "\<exists>r. int_div_float n y = Inr r"
proof -
  obtain v where v: "int_to_float n = Inr (Fin v)"
    using int_to_float_in_range [OF assms(1)] by blast
  show ?thesis
    using assms(2) by (cases y) (auto simp: int_div_float_def v exact_int_def)
qed

lemma int_truediv_in_range:
  assumes "\<bar>a\<bar> < 2 ^ 1023" "b \<noteq> 0"
  shows "\<exists>p. int_truediv a b = Inr p"
proof -
  have b1: "1 \<le> \<bar>of_int b :: rat\<bar>"
    using assms(2) by (metis of_int_abs of_int_1 of_int_le_iff zero_less_abs_iff zless_imp_add1_zle add_0)
  have shrink: "x / y \<le> x" if "0 \<le> x" "1 \<le> y" for x y :: rat
  proof -
    have "x * 1 \<le> x * y" using that by (intro mult_left_mono) simp_all
    moreover have "0 < y" using that(2) by simp
    ultimately show ?thesis by (simp add: pos_divide_le_eq)
  qed
  have "\<bar>of_int a / of_int b :: rat\<bar> = \<bar>of_int a\<bar> / \<bar>of_int b\<bar>" by simp
  also have "\<dots> \<le> \<bar>of_int a\<bar>"
    using b1 by (intro shrink) simp_all
  finally have "\<bar>of_int a / of_int b :: rat\<bar> < pow2 1023"
    using of_int_in_range [OF assms(1)] by simp
  then obtain v where "round_double (of_int a / of_int b) = Fin v"
    using round_double_finite by blast
  then show ?thesis using assms(2) by (simp add: int_truediv_def)
qed

lemma dex_ratio_in_range:
  assumes "\<bar>liq\<bar> < 2 ^ 1023" "\<bar>v\<bar> < 2 ^ 1023"
  shows "\<exists>r. dex_ratio v liq = Inr r"
proof -
  obtain b where b: "int_mul_float liq (float_literal (1 / 100)) = Inr b"
    using int_mul_float_in_range [OF assms(1)] by blast
  show ?thesis
    using int_div_float_in_range [OF assms(2), of b] by (auto simp: dex_ratio_def b)
qed

lemma or_1_in_range: "\<bar>x\<bar> < 2 ^ 1023 \<Longrightarrow> \<bar>or_1 x\<bar> < 2 ^ 1023"
  by (simp add: or_1_def)

lemma or_1_floored: "0 \<le> x \<Longrightarrow> or_1 x = floored_at_1 x"
  by (simp add: or_1_def floored_at_1_def max_def)

lemma round_double_one: "round_double 1 = Fin 1"
  using round_double_of_int [of 1] by simp

lemma int_to_float_ge_1:
  assumes "1 \<le> n" "\<bar>n\<bar> < 2 ^ 1023"
  shows "\<exists>l. int_to_float n = Inr (Fin l) \<and> 1 \<le> l"
proof -
  obtain v where v: "int_to_float n = Inr (Fin v)"
    using int_to_float_in_range [OF assms(2)] by blast
  then have r: "round_double (of_int n) = Fin v"
    by (auto simp: int_to_float_def split: pyfloat.splits)
  have "(1 :: rat) \<le> of_int n" using assms(1) by simp
  then have "float_le (round_double 1) (round_double (of_int n))"
    by (intro round_double_mono_pos) simp_all
  then have "1 \<le> v" by (simp add: round_double_one r)
  then show ?thesis using v by blast
qed

lemma scaled_positive:
  assumes "1 \<le> l" "round_double c = Fin c" "0 < c"
  shows "float_less (Fin 0) (round_double (l * c))"
proof -
  have "c * 1 \<le> c * l" using assms(1,3) by (intro mult_left_mono) simp_all
  then have "c \<le> l * c" by (simp add: mult.commute)
  then have "float_le (round_double c) (round_double (l * c))"
    using assms(3) by (intro round_double_mono_pos)
  then have "float_le (Fin c) (round_double (l * c))" by (simp add: assms(2))
  moreover have "float_less (Fin 0) (Fin c)" using assms(3) by simp
  ultimately show ?thesis using float_less_le_trans by blast
qed

lemma int_mul_float_positive:
  assumes "1 \<le> n" "\<bar>n\<bar> < 2 ^ 1023" "round_double c = Fin c" "0 < c"
  shows "\<exists>b. int_mul_float n (Fin c) = Inr b \<and> float_less (Fin 0) b"
proof -
  obtain l where l: "int_to_float n = Inr (Fin l)" "1 \<le> l"
    using int_to_float_ge_1 [OF assms(1,2)] by blast
  show ?thesis
    using scaled_positive [OF l(2) assms(3,4)] by (simp add: int_mul_float_def l(1))
qed

lemma literal_fixpoints:
  "round_double (5764607523034235 / 576460752303423488) = Fin (5764607523034235 / 576460752303423488)"
  "round_double (5764607523034235 / 1152921504606846976) = Fin (5764607523034235 / 1152921504606846976)"
  "round_double (5764607523034235 / 288230376151711744) = Fin (5764607523034235 / 288230376151711744)"
  using round_liq_1_base round_liq_1_lo round_liq_1_hi by simp_all

lemma component_scores_in_range:
  assumes "in_double_range m" "0 \<le> pool_liquidity m"
  shows "\<exists>b r p lo hi.
           int_mul_float (floored_at_1 (pool_liquidity m)) (float_literal (1 / 100)) = Inr b
         \<and> float_less (Fin 0) b
         \<and> int_div_float (dex_volume m) b = Inr r
         \<and> int_truediv (whale_sell_total m) (floored_at_1 (pool_liquidity m)) = Inr p
         \<and> int_mul_float (floored_at_1 (pool_liquidity m)) (float_literal (5 / 1000)) = Inr lo
         \<and> int_mul_float (floored_at_1 (pool_liquidity m)) (float_literal (2 / 100)) = Inr hi
         \<and> component_scores m =
             Inr (dex_table r (dex_trades m), whale_table p (whale_count_selling m),
                  cex_table (cex_net_inflow m) lo hi)"
proof -
  define liq where "liq = floored_at_1 (pool_liquidity m)"
  have or1: "or_1 (pool_liquidity m) = liq"
    using assms(2) by (simp add: liq_def or_1_floored)
  have l: "\<bar>liq\<bar> < 2 ^ 1023" and v: "\<bar>dex_volume m\<bar> < 2 ^ 1023"
    and w: "\<bar>whale_sell_total m\<bar> < 2 ^ 1023"
    using assms or_1_in_range [of "pool_liquidity m"]
    by (simp_all add: in_double_range_def or1 [symmetric])
  have l1: "1 \<le> liq" by (simp add: liq_def floored_at_1_def)
  then have nz: "liq \<noteq> 0" by simp
  obtain b where b: "int_mul_float liq (float_literal (1 / 100)) = Inr b" "float_less (Fin 0) b"
    unfolding float_lit_1_100
    using int_mul_float_positive [OF l1 l literal_fixpoints(1)] by auto
  obtain lo where lo: "int_mul_float liq (float_literal (5 / 1000)) = Inr lo" "float_less (Fin 0) lo"
    unfolding float_lit_5_1000
    using int_mul_float_positive [OF l1 l literal_fixpoints(2)] by auto
  obtain hi where hi: "int_mul_float liq (float_literal (2 / 100)) = Inr hi"
    using int_mul_float_in_range [OF l] by blast
  obtain r where r: "int_div_float (dex_volume m) b = Inr r"
    using int_div_float_in_range [OF v, of b] b(2) by (auto simp: exact_int_def)
  have dr: "dex_ratio (dex_volume m) liq = Inr r"
    unfolding dex_ratio_def b(1) using b(2) r by (simp add: exact_int_def)
  obtain p where p: "int_truediv (whale_sell_total m) liq = Inr p"
    using int_truediv_in_range [OF w nz] by blast
  have "component_scores m =
          Inr (dex_table r (dex_trades m), whale_table p (whale_count_selling m),
               cex_table (cex_net_inflow m) lo hi)"
    unfolding component_scores_def Let_def or1
    by (simp only: dr p cex_score_of_table [OF lo(1) hi lo(2)] dex_score_of_table
                   whale_score_of_table sum.case)
  then show ?thesis using b r p lo(1) hi unfolding liq_def by blast
qed

subsection \<open>The worked inputs, step by step\<close>

lemma dex_ratio_1e6_15000: "dex_ratio 15000 1000000 = Inr (Fin (3 / 2))"
  unfolding dex_ratio_def float_lit_1_100 liq_1e6_base
  by (simp add: exact_int_def v82_ratio)

lemma dex_ratio_1e6_60000: "dex_ratio 60000 1000000 = Inr (Fin 6)"
  unfolding dex_ratio_def float_lit_1_100 liq_1e6_base
  by (simp add: exact_int_def v83_ratio)

lemma whale_score_v82: "whale_score_of (Fin (5764607523034235 / 1152921504606846976)) 1 = 10"
  unfolding whale_score_of_def float_lit_1_1000 float_lit_1_100 float_lit_3_100
  by simp

lemma whale_score_v83: "whale_score_of (Fin (5764607523034235 / 144115188075855872)) 5 = 35"
  unfolding whale_score_of_def float_lit_1_1000 float_lit_1_100 float_lit_3_100
  by simp

lemma cex_score_v82: "cex_score_of 3000 1000000 = Inr 10"
  unfolding cex_score_of_def float_lit_5_1000 liq_1e6_lo
  by (simp add: exact_int_def)

lemma cex_score_v83: "cex_score_of 25000 1000000 = Inr 30"
  unfolding cex_score_of_def cex_second_branch_def cex_third_branch_def
    float_lit_5_1000 float_lit_2_100 liq_1e6_lo liq_1e6_hi
  by (simp add: exact_int_def)

lemma component_scores_v82: "component_scores vec82 = Inr (10, 10, 10)"
  by (simp add: component_scores_def vec82_def or_1_def dex_ratio_1e6_15000 dex_score_of_def
                exact_int_def v82_whale whale_score_v82 cex_score_v82)

lemma component_scores_v83: "component_scores vec83 = Inr (40, 35, 30)"
  by (simp add: component_scores_def vec83_def or_1_def dex_ratio_1e6_60000 dex_score_of_def
                exact_int_def v83_whale whale_score_v83 cex_score_v83)

lemma dex_ratio_140_7: "dex_ratio 7 140 = Inr (Fin (5629499534213119 / 1125899906842624))"
  unfolding dex_ratio_def float_lit_1_100 liq_140_base
  by (simp add: exact_int_def v140_ratio)

lemma int_truediv_zero: "b \<noteq> 0 \<Longrightarrow> int_truediv 0 b = Inr (Fin 0)"
  by (simp add: int_truediv_def round_double_def)

lemma whale_score_zero: "whale_score_of (Fin 0) 0 = 0"
  unfolding whale_score_of_def float_lit_1_1000 float_lit_1_100 float_lit_3_100
  by simp

lemma cex_score_140_0: "cex_score_of 0 140 = Inr 0"
  unfolding cex_score_of_def cex_second_branch_def cex_third_branch_def
    float_lit_5_1000 float_lit_2_100 liq_140_lo liq_140_hi
  by (simp add: exact_int_def)

lemma component_scores_v140: "component_scores vec140 = Inr (30, 0, 0)"
  by (simp add: component_scores_def vec140_def or_1_def dex_ratio_140_7 dex_score_of_def
                exact_int_def int_truediv_zero whale_score_zero cex_score_140_0)

lemma spec_risk_level_exact_v140: "spec_risk_level_exact vec140 = 2"
  by (simp add: spec_risk_level_exact_def vec140_def floored_at_1_def level_of_score_def)

lemma round_double_overflow: "round_double (of_int (2 ^ 1024)) = PInf"
proof -
  have "round_double_abs (2 ^ 1024) = of_int (2 ^ 52) * pow2 (max (1024 - 52) (- 1074))"
    by (rule round_double_abs_cert) (simp_all add: pow2_def)
  then show ?thesis by (simp add: round_double_def pow2_def)
qed

lemma int_to_float_overflow: "int_to_float (2 ^ 1024) = Inl OverflowError"
  by (simp only: int_to_float_def round_double_overflow pyfloat.case)

lemma dex_ratio_overflow: "dex_ratio v (2 ^ 1024) = Inl OverflowError"
  by (simp only: dex_ratio_def int_mul_float_def int_to_float_overflow sum.case)

lemma component_scores_overflow: "component_scores vec_huge = Inl OverflowError"
proof -
  have "or_1 (pool_liquidity vec_huge) = 2 ^ 1024" by (simp add: or_1_def vec_huge_def)
  then show ?thesis
    by (simp only: component_scores_def Let_def dex_ratio_overflow sum.case)
qed

lemma dex_ratio_1_1: "dex_ratio 1 1 = Inr (Fin 100)"
  unfolding dex_ratio_def float_lit_1_100 liq_1_base
  by (simp add: exact_int_def v1_ratio)

lemma cex_score_1_0: "cex_score_of 0 1 = Inr 0"
  unfolding cex_score_of_def cex_second_branch_def cex_third_branch_def
    float_lit_5_1000 float_lit_2_100 liq_1_lo liq_1_hi
  by (simp add: exact_int_def)

lemma component_scores_zero_liquidity: "component_scores vec_zero_liquidity = Inr (30, 0, 0)"
  by (simp add: component_scores_def vec_zero_liquidity_def or_1_def dex_ratio_1_1
                dex_score_of_def exact_int_def int_truediv_zero whale_score_zero cex_score_1_0)

lemma dex_ratio_negative_liquidity: "dex_ratio 7 (- 140) = Inr (Fin 0)"
  unfolding dex_ratio_def float_lit_1_100 liq_neg_base
  by (simp add: exact_int_def)

lemma cex_score_neg_0: "cex_score_of 0 (- 140) = Inr 30"
  unfolding cex_score_of_def cex_second_branch_def cex_third_branch_def
    float_lit_5_1000 float_lit_2_100 liq_neg_lo liq_neg_hi
  by (simp add: exact_int_def)

lemma component_scores_negative: "component_scores vec_negative = Inr (0, 0, 30)"
proof -
  have "dex_ratio 0 (- 140) = Inr (Fin 0)"
    unfolding dex_ratio_def float_lit_1_100 liq_neg_base by (simp add: exact_int_def)
  then show ?thesis
    by (simp add: component_scores_def vec_negative_def or_1_def dex_score_of_def
                  exact_int_def int_truediv_zero whale_score_zero cex_score_neg_0)
qed

lemma spec_risk_level_exact_negative: "spec_risk_level_exact vec_negative = 0"
  by (simp add: spec_risk_level_exact_def vec_negative_def floored_at_1_def level_of_score_def)

lemma int_div_float_zero:
  assumes "b \<noteq> 0"
  shows "int_div_float 0 (Fin b) = Inr (Fin 0)"
  using assms int_to_float_small [of 0] by (simp add: int_div_float_def round_double_def)

lemma component_scores_floored: "component_scores vec_floored = Inr (0, 0, 0)"
proof -
  have "dex_ratio 0 1 = Inr (Fin 0)"
    unfolding dex_ratio_def float_lit_1_100 liq_1_base
    by (simp add: exact_int_def int_div_float_zero)
  then show ?thesis
    by (simp add: component_scores_def vec_floored_def vec_negative_def floored_at_1_def or_1_def
                  dex_score_of_def exact_int_def int_truediv_zero whale_score_zero cex_score_1_0)
qed

section \<open>Facts about the API server\<close>

subsection \<open>Scores\<close>

lemma score_of_level_small:
  assumes "\<bar>level\<bar> < 2 ^ 40"
  shows "score_of_level level = Inr (Fin (of_int level * 25 + 25 / 2))"
proof -
  have a: "\<bar>level * 25\<bar> < 2 ^ 53" using assms by (simp add: abs_mult)
  have m: "\<bar>50 * level + 25\<bar> < 2 ^ 53" using assms by simp
  have q: "(of_int (level * 25) + 25 / 2 :: rat) = of_int (50 * level + 25) * pow2 (- 1)"
    by (simp add: pow2_def)
  have "\<bar>of_int (50 * level + 25) :: rat\<bar> < of_int (2 ^ 53)"
    using m by (metis of_int_abs of_int_less_iff)
  then have "\<bar>of_int (50 * level + 25) * pow2 (- 1) :: rat\<bar> < 2 ^ 53"
    by (simp add: pow2_def abs_mult)
  also have "(2 ^ 53 :: rat) \<le> pow2 1024" by (simp add: pow2_def)
  finally have b: "\<bar>of_int (level * 25) + 25 / 2 :: rat\<bar> < pow2 1024" unfolding q .
  have "round_double (of_int (level * 25) + 25 / 2) = Fin (of_int (level * 25) + 25 / 2)"
    using round_double_exact [OF q m _ b] by simp
  then show ?thesis
    unfolding score_of_level_def float_lit_25_2
    by (simp add: int_add_float_def int_to_float_small [OF a])
qed

lemma select_latest_None: "select_latest rows mid = None \<longleftrightarrow> (\<forall>r \<in> set rows. row_market_id r \<noteq> mid)"
proof -
  have "select_latest rows mid = None \<longleftrightarrow> rev (sort_key row_created_at (filter (\<lambda>r. row_market_id r = mid) rows)) = []"
    by (simp add: select_latest_def split: list.splits)
  also have "\<dots> \<longleftrightarrow> filter (\<lambda>r. row_market_id r = mid) rows = []"
    by (metis rev_is_Nil_conv set_empty set_sort)
  also have "\<dots> \<longleftrightarrow> (\<forall>r \<in> set rows. row_market_id r \<noteq> mid)"
    by (simp add: filter_empty_conv)
  finally show ?thesis .
qed

lemma get_latest_no_row:
  assumes "\<forall>r \<in> set rows. row_market_id r \<noteq> mid"
  shows "get_latest_risk_level rows mid = Inr (0, Fin 0, None)"
  using assms select_latest_None [of rows mid] by (simp add: get_latest_risk_level_def)

lemma get_latest_with_row:
  assumes "get_latest_risk_level rows mid = Inr (level, score, updated)"
    and "\<exists>r \<in> set rows. row_market_id r = mid"
  shows "score_of_level level = Inr score \<and> updated \<noteq> None"
proof -
  obtain row where "select_latest rows mid = Some row"
    using assms(2) select_latest_None [of rows mid] by (cases "select_latest rows mid") auto
  then show ?thesis
    using assms(1) by (auto simp: get_latest_risk_level_def split: sum.splits)
qed

lemma get_markets_loop_member:
  assumes "get_markets_loop keccak rows cfg = Inr ms" "m \<in> set ms"
  shows "get_latest_risk_level rows (api_calc_market_id keccak (m_label m))
           = Inr (riskLevel m, riskScore m, lastUpdated m)"
  using assms
proof (induction cfg arbitrary: ms)
  case Nil
  then show ?case by simp
next
  case (Cons c cfg)
  show ?case
  proof (cases "entry_type c = Some ''dex_pool''")
    case False
    then show ?thesis using Cons by simp
  next
    case True
    then show ?thesis
      using Cons.prems Cons.IH
      by (auto simp: Let_def split: option.splits sum.splits prod.splits if_splits)
  qed
qed

lemma get_market_detail_latest:
  assumes "get_market_detail keccak file rows wanted = Inr d"
  shows "get_latest_risk_level rows (api_calc_market_id keccak wanted)
           = Inr (riskLevel d, riskScore d, lastUpdated d)"
  using assms
  by (auto simp: get_market_detail_def Let_def split: option.splits sum.splits prod.splits)

lemma history_points_member:
  assumes "history_points rows = Inr ps" "pt \<in> set ps"
  shows "score_of_level (point_level pt) = Inr (point_score pt)"
  using assms
proof (induction rows arbitrary: ps)
  case Nil
  then show ?case by simp
next
  case (Cons r rows)
  then show ?case by (auto split: sum.splits)
qed

subsection \<open>Alerts\<close>

lemma severity_map_names: "severity_map l \<in> {''low'', ''medium'', ''high'', ''critical''}"
  by (simp add: severity_map_def)

lemma alerts_loop_severity:
  "a \<in> set (alerts_loop labels sev changes)
     \<Longrightarrow> alert_severity a \<in> {''low'', ''medium'', ''high'', ''critical''}"
proof (induction labels sev changes rule: alerts_loop.induct)
  case (1 market_labels severity)
  then show ?case by simp
next
  case (2 market_labels severity row prev_level rest)
  then show ?case
    using severity_map_names [of "row_level row"]
    by (auto simp: Let_def split: if_splits)
qed

lemma alerts_loop_filter:
  assumes "s \<noteq> []"
  shows "alerts_loop labels (Some s) changes
           = filter (\<lambda>a. alert_severity a = s) (alerts_loop labels None changes)"
  using assms
  by (induction labels "Some s" changes rule: alerts_loop.induct)
     (auto simp: Let_def truthy_def)

lemma alerts_loop_empty_string:
  "alerts_loop labels (Some []) changes = alerts_loop labels None changes"
  by (induction labels "Some ([] :: string)" changes rule: alerts_loop.induct)
     (auto simp: Let_def truthy_def)

lemma alerts_loop_unknown:
  assumes "s \<noteq> []" "s \<notin> {''low'', ''medium'', ''high'', ''critical''}"
  shows "alerts_loop labels (Some s) changes = []"
proof -
  have "\<forall>a \<in> set (alerts_loop labels None changes). alert_severity a \<noteq> s"
    using alerts_loop_severity assms(2) by blast
  then show ?thesis
    unfolding alerts_loop_filter [OF assms(1)] by (simp add: filter_empty_conv)
qed

lemma build_market_labels_total:
  assumes "\<forall>c \<in> set cfg. entry_label c \<noteq> None"
  shows "\<exists>labels. build_market_labels keccak acc cfg = Inr labels"
  using assms by (induction cfg arbitrary: acc) (auto split: option.splits)

lemma changes_of_five:
  fixes i1 i2 i3 i4 i5 :: int and c1 c2 c3 c4 c5 mid s1 s2 s3 s4 s5 :: string
  assumes i: "i1 < i2" "i2 < i3" "i3 < i4" "i4 < i5"
    and c: "c1 < c2" "c2 < c3" "c3 < c4" "c4 < c5"
  defines "r1 \<equiv> \<lparr>row_id = i1, row_market_id = mid, row_level = 0, row_source = s1, row_created_at = c1\<rparr>"
    and "r2 \<equiv> \<lparr>row_id = i2, row_market_id = mid, row_level = 0, row_source = s2, row_created_at = c2\<rparr>"
    and "r3 \<equiv> \<lparr>row_id = i3, row_market_id = mid, row_level = 1, row_source = s3, row_created_at = c3\<rparr>"
    and "r4 \<equiv> \<lparr>row_id = i4, row_market_id = mid, row_level = 1, row_source = s4, row_created_at = c4\<rparr>"
    and "r5 \<equiv> \<lparr>row_id = i5, row_market_id = mid, row_level = 2, row_source = s5, row_created_at = c5\<rparr>"
  shows "select_level_changes [r1, r2, r3, r4, r5]
           = [(r5, Some 1), (r4, Some 1), (r3, Some 0), (r2, Some 0), (r1, None)]"
proof -
  have cs: "c1 < c3" "c1 < c4" "c1 < c5" "c2 < c4" "c2 < c5" "c3 < c5"
    using c by (auto intro: less_trans)
  have ids: "i1 < i3" "i1 < i4" "i1 < i5" "i2 < i4" "i2 < i5" "i3 < i5"
    using i by auto
  have ord: "rev (sort_key row_created_at [r1, r2, r3, r4, r5]) = [r5, r4, r3, r2, r1]"
    using c cs by (simp add: r1_def r2_def r3_def r4_def r5_def less_imp_le not_le)
  have p1: "prev_level_of [r1, r2, r3, r4, r5] r1 = None"
    using i ids by (simp add: prev_level_of_def r1_def r2_def r3_def r4_def r5_def)
  have p2: "prev_level_of [r1, r2, r3, r4, r5] r2 = Some 0"
    using i ids by (simp add: prev_level_of_def r1_def r2_def r3_def r4_def r5_def)
  have p3: "prev_level_of [r1, r2, r3, r4, r5] r3 = Some 0"
    using i ids by (simp add: prev_level_of_def r1_def r2_def r3_def r4_def r5_def less_imp_le not_le)
  have p4: "prev_level_of [r1, r2, r3, r4, r5] r4 = Some 1"
    using i ids by (simp add: prev_level_of_def r1_def r2_def r3_def r4_def r5_def less_imp_le not_le)
  have p5: "prev_level_of [r1, r2, r3, r4, r5] r5 = Some 1"
    using i ids by (simp add: prev_level_of_def r1_def r2_def r3_def r4_def r5_def less_imp_le not_le)
  show ?thesis
    unfolding select_level_changes_def ord by (simp add: p1 p2 p3 p4 p5)
qed

section \<open>Facts about the worked inputs of the API and the Monitor\<close>

lemma str_int_small: "str_int 0 = ''0''" "str_int 1 = ''1''" "str_int 2 = ''2''"
  by (simp_all add: str_int_def digit_char_def)

lemma five_rows_changes:
  "select_level_changes five_rows =
     [(five_rows ! 4, Some 1), (five_rows ! 3, Some 1), (five_rows ! 2, Some 0),
      (five_rows ! 1, Some 0), (five_rows ! 0, None)]"
  unfolding five_rows_def
  by (simp add: changes_of_five)

lemma get_alerts_five_rows_unfiltered:
  "get_alerts stub_digest FileMissing five_rows None = Inr five_rows_alerts"
  unfolding get_alerts_def five_rows_changes
  by (simp add: five_rows_def five_rows_alerts_def load_markets_config_def load_markets_def
                truthy_def severity_map_def str_optional_int_def str_int_small)

lemma get_markets_fresh:
  "get_markets stub_digest one_pool_file [] = Inr [fresh_market]"
  by (simp add: get_markets_def one_pool_file_def load_markets_config_def load_markets_def
                get_latest_risk_level_def select_latest_def label_tokens_def
                config_type_def config_address_def fresh_market_def)

lemma score_of_level_2: "score_of_level 2 = Inr (Fin (125 / 2))"
  using score_of_level_small [of 2] by simp

lemma get_markets_rated:
  "get_markets stub_digest one_pool_file one_pool_rows = Inr [rated_market]"
  by (simp add: get_markets_def one_pool_file_def load_markets_config_def load_markets_def
                get_latest_risk_level_def select_latest_def label_tokens_def one_pool_rows_def
                config_type_def config_address_def rated_market_def score_of_level_2)

lemma length_hexbytes_hex: "length (hexbytes_hex bs) = 2 + 2 * length bs"
  by (induction bs) (simp_all add: hexbytes_hex_def hex_byte_def)

subsection \<open>The end of a cycle, when it is reached\<close>

lemma persist_and_publish_rows:
  "st_risk_levels (fst (persist_and_publish params env st level)) =
     st_risk_levels st @
       [\<lparr>row_id = next_row_id (st_risk_levels st),
         row_market_id = hexbytes_hex (mp_market_id params),
         row_level = level, row_source = ''multi_factor'', row_created_at = clock env\<rparr>]"
  by (simp add: persist_and_publish_def save_risk_level_def Let_def split: sum.splits)

lemma persist_and_publish_unchanged:
  assumes "st_last_level st = Some level"
  shows "st_sent (fst (persist_and_publish params env st level)) = st_sent st"
    and "snd (persist_and_publish params env st level) = None"
  using assms by (simp_all add: persist_and_publish_def save_risk_level_def Let_def)

lemma persist_and_publish_changed:
  assumes "st_last_level st \<noteq> Some level" "send_update_risk_tx env level (mp_market_id params) = Inr h"
  shows "st_sent (fst (persist_and_publish params env st level)) = st_sent st @ [(mp_market_id params, level)]"
    and "st_last_level (fst (persist_and_publish params env st level)) = Some level"
  using assms by (auto simp: persist_and_publish_def save_risk_level_def Let_def)

subsection \<open>The call of step 3\<close>

lemma monitor_cycle_outcome:
  "monitor_cycle params env st =
     (case recent_swaps env of
        Inl e \<Rightarrow> (st, Some e)
      | Inr trades \<Rightarrow> (save_trades trades st, Some TypeError))"
  by (simp add: monitor_cycle_def call_fetch_whale_metrics_def Let_def split: sum.splits)

lemma monitor_run_tables:
  "st_risk_levels (fst (monitor_run params envs st)) = st_risk_levels st
   \<and> st_sent (fst (monitor_run params envs st)) = st_sent st
   \<and> st_last_level (fst (monitor_run params envs st)) = st_last_level st"
  by (cases envs) (auto simp: monitor_cycle_outcome save_trades_def split: sum.splits)

lemma lower_examples:
  "lower ''0xWhale'' = ''0xwhale''" "lower ''0xPool'' = ''0xpool''" "lower ''0xpool'' = ''0xpool''"
  "lower ''0xwhale'' = ''0xwhale''" "lower ''0xother'' = ''0xother''" "lower ''0xcex'' = ''0xcex''"
  "lower ''mainnet'' = ''mainnet''"
  by code_simp+

lemma call_with_pair_address:
  "call_fetch_whale_metrics explorer_chain [''0xwhale''] [''0xcex''] (Some ''0xpool'')
     (Some 2000) (Some ''mainnet'') = Inr (500, 1)"
  by (simp add: call_fetch_whale_metrics_def fetch_whale_metrics_def explorer_chain_def
                example_chain_def head_100_def any_address_def two_transfers_def
                fetch_normal_txs_in_range_def etherscan_get_def etherscan_base_url_def
                whale_sell_of_def lower_examples Let_def)

section \<open>The claims\<close>

subsection \<open>The composite risk level\<close>

text \<open>
  Claim C2, as the code has it. For every metrics bundle whose liquidity is not negative
  and whose integers are below \<open>2^1023\<close> in magnitude, \<open>compute_risk_level\<close> returns, and
  the level it returns is the level of the sum of the three component tables of section
  4.7, with the liquidity floored at 1, the baseline volume 0.01 times the liquidity
  (always positive), \<open>r\<close> the volume divided by the baseline, \<open>p\<close> the whale sells divided
  by the liquidity, and the exchange thresholds 0.005 and 0.02 times the liquidity, every
  operation being the binary64 operation of the code. The vector of the specification
  (liquidity 1 000 000, volume 15 000, 50 trades, whale sells 5 000 by one whale, net
  inflow 3 000) has component scores 10, 10, 10 and level 1.
\<close>

theorem compute_risk_level_by_tables:
  "(in_double_range m \<and> 0 \<le> pool_liquidity m \<longrightarrow>
      (\<exists>baseline r p lo hi.
           int_mul_float (floored_at_1 (pool_liquidity m)) (float_literal (1 / 100)) = Inr baseline
         \<and> float_less (Fin 0) baseline
         \<and> int_div_float (dex_volume m) baseline = Inr r
         \<and> int_truediv (whale_sell_total m) (floored_at_1 (pool_liquidity m)) = Inr p
         \<and> int_mul_float (floored_at_1 (pool_liquidity m)) (float_literal (5 / 1000)) = Inr lo
         \<and> int_mul_float (floored_at_1 (pool_liquidity m)) (float_literal (2 / 100)) = Inr hi
         \<and> compute_risk_level m =
             Inr (level_of_score (dex_table r (dex_trades m)
                                  + whale_table p (whale_count_selling m)
                                  + cex_table (cex_net_inflow m) lo hi))))
   \<and> component_scores vec82 = Inr (10, 10, 10)
   \<and> compute_risk_level vec82 = Inr 1"
proof -
  have "\<exists>baseline r p lo hi.
           int_mul_float (floored_at_1 (pool_liquidity m)) (float_literal (1 / 100)) = Inr baseline
         \<and> float_less (Fin 0) baseline
         \<and> int_div_float (dex_volume m) baseline = Inr r
         \<and> int_truediv (whale_sell_total m) (floored_at_1 (pool_liquidity m)) = Inr p
         \<and> int_mul_float (floored_at_1 (pool_liquidity m)) (float_literal (5 / 1000)) = Inr lo
         \<and> int_mul_float (floored_at_1 (pool_liquidity m)) (float_literal (2 / 100)) = Inr hi
         \<and> compute_risk_level m =
             Inr (level_of_score (dex_table r (dex_trades m)
                                  + whale_table p (whale_count_selling m)
                                  + cex_table (cex_net_inflow m) lo hi))"
    if rng: "in_double_range m" and nonneg: "0 \<le> pool_liquidity m"
  proof -
    obtain baseline r p lo hi where
      "int_mul_float (floored_at_1 (pool_liquidity m)) (float_literal (1 / 100)) = Inr baseline"
      "float_less (Fin 0) baseline"
      "int_div_float (dex_volume m) baseline = Inr r"
      "int_truediv (whale_sell_total m) (floored_at_1 (pool_liquidity m)) = Inr p"
      "int_mul_float (floored_at_1 (pool_liquidity m)) (float_literal (5 / 1000)) = Inr lo"
      "int_mul_float (floored_at_1 (pool_liquidity m)) (float_literal (2 / 100)) = Inr hi"
      and c: "component_scores m =
             Inr (dex_table r (dex_trades m), whale_table p (whale_count_selling m),
                  cex_table (cex_net_inflow m) lo hi)"
      using component_scores_in_range [OF rng nonneg] by blast
    moreover have "compute_risk_level m =
             Inr (level_of_score (dex_table r (dex_trades m)
                                  + whale_table p (whale_count_selling m)
                                  + cex_table (cex_net_inflow m) lo hi))"
      by (simp add: compute_risk_level_def c)
    ultimately show ?thesis by blast
  qed
  moreover have "compute_risk_level vec82 = Inr 1"
    by (simp add: compute_risk_level_def component_scores_v82 level_of_score_def)
  ultimately show ?thesis using component_scores_v82 by blast
qed

text \<open>
  The theorem at the second vector of the specification (volume 60 000, 250 trades, whale
  sells 40 000 by five whales, net inflow 25 000): it is in range, its liquidity is
  positive, and the tables give 40 + 35 + 30, level 3.
\<close>

theorem compute_risk_level_by_tables_witness:
  "in_double_range vec83 \<and> 0 \<le> pool_liquidity vec83 \<and> compute_risk_level vec83 = Inr 3"
proof -
  have rng: "in_double_range vec83" by (simp add: in_double_range_def vec83_def)
  have nonneg: "0 \<le> pool_liquidity vec83" by (simp add: vec83_def)
  have sel: "dex_volume vec83 = 60000" "dex_trades vec83 = 250" "whale_sell_total vec83 = 40000"
    "whale_count_selling vec83 = 5" "cex_net_inflow vec83 = 25000"
    "floored_at_1 (pool_liquidity vec83) = 1000000"
    by (simp_all add: vec83_def floored_at_1_def)
  from compute_risk_level_by_tables [of vec83] rng nonneg obtain baseline r p lo hi where
    b: "int_mul_float 1000000 (float_literal (1 / 100)) = Inr baseline"
    and r: "int_div_float 60000 baseline = Inr r"
    and p: "int_truediv 40000 1000000 = Inr p"
    and lo: "int_mul_float 1000000 (float_literal (5 / 1000)) = Inr lo"
    and hi: "int_mul_float 1000000 (float_literal (2 / 100)) = Inr hi"
    and l: "compute_risk_level vec83 =
             Inr (level_of_score (dex_table r 250 + whale_table p 5 + cex_table 25000 lo hi))"
    unfolding sel by blast
  have "baseline = Fin 10000" using b unfolding float_lit_1_100 by (simp add: liq_1e6_base)
  then have "r = Fin 6" using r by (simp add: v83_ratio)
  moreover have "p = Fin (5764607523034235 / 144115188075855872)" using p by (simp add: v83_whale)
  moreover have "lo = Fin 5000" using lo unfolding float_lit_5_1000 by (simp add: liq_1e6_lo)
  moreover have "hi = Fin 20000" using hi unfolding float_lit_2_100 by (simp add: liq_1e6_hi)
  moreover have "dex_table (Fin 6) 250 = 40" by (simp add: dex_table_def exact_int_def)
  moreover have "whale_table (Fin (5764607523034235 / 144115188075855872)) 5 = 35"
    unfolding whale_table_def float_lit_1_1000 float_lit_1_100 float_lit_3_100 by simp
  moreover have "cex_table 25000 (Fin 5000) (Fin 20000) = 30"
    by (simp add: cex_table_def exact_int_def)
  ultimately have "compute_risk_level vec83 = Inr 3"
    using l by (simp add: level_of_score_def)
  with rng nonneg show ?thesis by simp
qed

text \<open>
  The claim as written fails in three ways. Read with exact ratios, liquidity 140 and
  volume 7 give \<open>r = 5\<close>, so 30 + 10 points and level 2, but the code computes
  \<open>r = 4.999999999999999\<close>, 20 + 10 points and level 1. It does not return for every
  bundle: a liquidity of \<open>2^1024\<close> raises \<open>OverflowError\<close>. And a negative liquidity is
  not floored at 1: with liquidity \<open>-140\<close> and everything else 0, section 4.7 gives no
  points and level 0, but the code compares the net inflow 0 with the negative threshold
  \<open>0.02 * -140\<close>, gives 30 points and level 1.
\<close>

theorem compute_risk_level_counterexample:
  "compute_risk_level vec140 = Inr 1
   \<and> spec_risk_level_exact vec140 = 2
   \<and> compute_risk_level vec_huge = Inl OverflowError
   \<and> component_scores vec_negative = Inr (0, 0, 30)
   \<and> compute_risk_level vec_negative = Inr 1
   \<and> spec_risk_level_exact vec_negative = 0"
  by (simp add: compute_risk_level_def component_scores_v140 level_of_score_def
                spec_risk_level_exact_v140 component_scores_overflow
                component_scores_negative spec_risk_level_exact_negative)

subsection \<open>No division by zero\<close>

text \<open>
  Claim C9, as the code has it. For every metrics bundle, zero liquidity included,
  \<open>compute_risk_level\<close> never raises a division by zero (the only exception it can raise
  is the overflow of an integer too large for a float): a liquidity of 0 is replaced by 1
  before it is used as a denominator and every other liquidity is used as it is, so the
  denominator is never zero; for a liquidity that is not negative this is the floor at 1;
  and the ratio \<open>r\<close> is 0 whenever the baseline volume is not positive. With liquidity 0
  and volume 1 the level is 1.
\<close>

theorem compute_risk_level_no_zero_division:
  "compute_risk_level m \<noteq> Inl ZeroDivisionError
   \<and> (compute_risk_level m = Inl e \<longrightarrow> e = OverflowError)
   \<and> or_1 (pool_liquidity m) \<noteq> 0
   \<and> or_1 (pool_liquidity m) = (if pool_liquidity m = 0 then 1 else pool_liquidity m)
   \<and> (0 \<le> pool_liquidity m \<longrightarrow> or_1 (pool_liquidity m) = floored_at_1 (pool_liquidity m))
   \<and> (int_mul_float liq (float_literal (1 / 100)) = Inr b \<and> \<not> float_less (exact_int 0) b
        \<longrightarrow> dex_ratio v liq = Inr (exact_int 0))
   \<and> compute_risk_level vec_zero_liquidity = Inr 1"
proof -
  have "compute_risk_level m \<noteq> Inl ZeroDivisionError"
    using compute_risk_level_error [of m ZeroDivisionError] by auto
  moreover have "compute_risk_level m = Inl e \<longrightarrow> e = OverflowError"
    using compute_risk_level_error by blast
  moreover have "or_1 (pool_liquidity m) = (if pool_liquidity m = 0 then 1 else pool_liquidity m)"
    by (simp add: or_1_def)
  moreover have "0 \<le> pool_liquidity m \<longrightarrow> or_1 (pool_liquidity m) = floored_at_1 (pool_liquidity m)"
    by (simp add: or_1_floored)
  moreover have "int_mul_float liq (float_literal (1 / 100)) = Inr b \<and> \<not> float_less (exact_int 0) b
        \<longrightarrow> dex_ratio v liq = Inr (exact_int 0)"
    by (simp add: dex_ratio_def)
  moreover have "compute_risk_level vec_zero_liquidity = Inr 1"
    by (simp add: compute_risk_level_def component_scores_zero_liquidity level_of_score_def)
  ultimately show ?thesis using or_1_nonzero by blast
qed

theorem compute_risk_level_no_zero_division_witness:
  "or_1 (pool_liquidity vec_zero_liquidity) = 1
   \<and> floored_at_1 (pool_liquidity vec_zero_liquidity) = 1
   \<and> compute_risk_level vec_zero_liquidity \<noteq> Inl ZeroDivisionError
   \<and> dex_ratio 7 (- 140) = Inr (exact_int 0)"
  using compute_risk_level_no_zero_division
          [of vec_zero_liquidity _ "- 140" "Fin (- (6305039478318695 / 4503599627370496))" 7]
  unfolding float_lit_1_100
  by (simp add: vec_zero_liquidity_def liq_neg_base exact_int_def floored_at_1_def)

text \<open>
  The claim as written says the liquidity is floored at 1 for every bundle. A negative
  liquidity is not: \<open>-140 or 1\<close> is \<open>-140\<close>, the code divides by it, and the level it
  computes for the bundle of zeros (1) differs from the level of the same bundle with the
  liquidity floored at 1 (0).
\<close>

theorem compute_risk_level_floor_counterexample:
  "or_1 (pool_liquidity vec_negative) = - 140
   \<and> floored_at_1 (pool_liquidity vec_negative) = 1
   \<and> compute_risk_level vec_negative = Inr 1
   \<and> compute_risk_level vec_floored = Inr 0"
  by (simp add: compute_risk_level_def component_scores_negative component_scores_floored
                level_of_score_def)
     (simp add: vec_negative_def or_1_def floored_at_1_def)

subsection \<open>Pool liquidity estimate\<close>

text \<open>
  Claim C8. \<open>estimate_pool_liquidity\<close> returns \<open>reserve0 + reserve1\<close> when the read
  succeeds and the sum is strictly positive, the fallback \<open>10^24\<close> when the read fails or
  the sum is not positive, and therefore always a strictly positive number.
\<close>

theorem estimate_pool_liquidity_result:
  "(get_reserves env network pair = CallReturns r0 r1 ts \<and> 0 < r0 + r1
      \<longrightarrow> estimate_pool_liquidity env pair network = r0 + r1)
   \<and> (get_reserves env network pair = CallReturns r0 r1 ts \<and> r0 + r1 \<le> 0
      \<longrightarrow> estimate_pool_liquidity env pair network = 10 ^ 24)
   \<and> (get_reserves env network pair = CallRaises
      \<longrightarrow> estimate_pool_liquidity env pair network = 10 ^ 24)
   \<and> 0 < estimate_pool_liquidity env pair network"
  by (cases "get_reserves env network pair")
     (simp_all add: estimate_pool_liquidity_def FALLBACK_LIQUIDITY_def Let_def)

theorem estimate_pool_liquidity_result_witness:
  "estimate_pool_liquidity example_chain ''0xpair'' ''mainnet'' = 7
   \<and> estimate_pool_liquidity (example_chain\<lparr>get_reserves := reserves_empty\<rparr>) ''0xpair'' ''mainnet'' = 10 ^ 24
   \<and> estimate_pool_liquidity (example_chain\<lparr>get_reserves := reserves_unreachable\<rparr>) ''0xpair'' ''mainnet'' = 10 ^ 24"
  using estimate_pool_liquidity_result [of example_chain "''mainnet''" "''0xpair''" 3 4 0]
        estimate_pool_liquidity_result
          [of "example_chain\<lparr>get_reserves := reserves_empty\<rparr>" "''mainnet''" "''0xpair''" 0 0 0]
        estimate_pool_liquidity_result
          [of "example_chain\<lparr>get_reserves := reserves_unreachable\<rparr>" "''mainnet''" "''0xpair''"]
  by (simp add: example_chain_def reserves_3_4_def reserves_empty_def reserves_unreachable_def)

subsection \<open>Loading the configuration\<close>

text \<open>
  Claim C5, as the code has it. Called from the Monitor, loading fails both when the file is
  missing and when it is malformed. Called from the API Server, a missing file gives the
  empty sequence, but a malformed file still raises: the decode error is not caught.
\<close>

theorem load_markets_failure_modes:
  "load_markets FileMissing = Inl FileNotFoundError
   \<and> load_markets FileMalformed = Inl JSONDecodeError
   \<and> load_markets_config FileMissing = Inr []
   \<and> load_markets_config FileMalformed = Inl JSONDecodeError
   \<and> load_markets_config (FileParsed ms) = Inr ms"
  by (simp add: load_markets_def load_markets_config_def)

text \<open>
  The claim as written says the API Server's loader returns the empty sequence for a
  malformed file too; it does not.
\<close>

theorem load_markets_config_malformed_counterexample:
  "load_markets_config FileMalformed \<noteq> Inr []"
  by (simp add: load_markets_def load_markets_config_def)

subsection \<open>Alerts from level transitions\<close>

text \<open>
  Claim C3, as the code has it. Given the rows of a single market with levels 0, 0, 1, 1, 2
  in insertion order (ids and timestamps increasing), and a configuration that loads,
  \<open>GET /api/alerts\<close> without a severity filter answers exactly three alerts, newest
  first: the transition from 1 to 2 with severity high, the transition from 0 to 1 with
  severity medium, and the first recorded level 0, which has no previous level and
  severity low.
\<close>

theorem get_alerts_level_transitions:
  fixes i1 i2 i3 i4 i5 :: int and c1 c2 c3 c4 c5 mid s1 s2 s3 s4 s5 :: string
  assumes "i1 < i2" "i2 < i3" "i3 < i4" "i4 < i5"
    and "c1 < c2" "c2 < c3" "c3 < c4" "c4 < c5"
    and "load_markets_config file = Inr cfg" "\<forall>c \<in> set cfg. entry_label c \<noteq> None"
  shows "\<exists>alerts.
           get_alerts keccak file
             [\<lparr>row_id = i1, row_market_id = mid, row_level = 0, row_source = s1, row_created_at = c1\<rparr>,
              \<lparr>row_id = i2, row_market_id = mid, row_level = 0, row_source = s2, row_created_at = c2\<rparr>,
              \<lparr>row_id = i3, row_market_id = mid, row_level = 1, row_source = s3, row_created_at = c3\<rparr>,
              \<lparr>row_id = i4, row_market_id = mid, row_level = 1, row_source = s4, row_created_at = c4\<rparr>,
              \<lparr>row_id = i5, row_market_id = mid, row_level = 2, row_source = s5, row_created_at = c5\<rparr>]
             None = Inr alerts
         \<and> map alert_summary alerts =
             [(i5, Some 1, 2, ''high''), (i3, Some 0, 1, ''medium''), (i1, None, 0, ''low'')]"
proof -
  obtain labels where "build_market_labels keccak Map.empty cfg = Inr labels"
    using build_market_labels_total [OF assms(10)] by blast
  then show ?thesis
    unfolding get_alerts_def changes_of_five [OF assms(1-8)]
    by (simp add: assms(9) alert_summary_def truthy_def severity_map_def)
qed

theorem get_alerts_level_transitions_witness:
  "map alert_summary five_rows_alerts =
     [(5, Some 1, 2, ''high''), (3, Some 0, 1, ''medium''), (1, None, 0, ''low'')]"
proof -
  have "load_markets_config FileMissing = Inr []"
    by (simp add: load_markets_config_def load_markets_def)
  from get_alerts_level_transitions
         [of 1 2 3 4 5 "''2025-01-01T00:00:00''" "''2025-01-01T00:01:00''"
             "''2025-01-01T00:02:00''" "''2025-01-01T00:03:00''" "''2025-01-01T00:04:00''"
             FileMissing "[]" stub_digest "''0xaa''" "''multi_factor''" "''multi_factor''"
             "''multi_factor''" "''multi_factor''" "''multi_factor''", OF _ _ _ _ _ _ _ _ this]
  show ?thesis
    by (simp add: get_alerts_five_rows_unfiltered [unfolded five_rows_def])
qed

text \<open>
  The claim as written says exactly two alerts; the endpoint answers three, because the
  first row, with no predecessor, is a transition too.
\<close>

theorem get_alerts_two_alerts_counterexample:
  "get_alerts stub_digest FileMissing five_rows None = Inr five_rows_alerts
   \<and> length five_rows_alerts = 3
   \<and> alert_previousLevel (last five_rows_alerts) = None
   \<and> alert_severity (last five_rows_alerts) = ''low''"
  by (simp add: get_alerts_five_rows_unfiltered) (simp add: five_rows_alerts_def)

subsection \<open>The severity filter\<close>

text \<open>
  Claim C10, as the code has it. When the configuration loads, a severity value that is
  not empty and not one of low, medium, high, critical is not rejected: the endpoint
  succeeds with the empty list, while the same rows answer their alerts without a filter,
  and a filter that is one of the four names selects from them. An empty severity value
  is not a filter at all: it answers the same alerts as no value.
\<close>

theorem get_alerts_severity_filter:
  assumes "load_markets_config file = Inr cfg" "\<forall>c \<in> set cfg. entry_label c \<noteq> None"
  shows "\<exists>unfiltered.
           get_alerts keccak file rows None = Inr unfiltered
         \<and> get_alerts keccak file rows (Some []) = Inr unfiltered
         \<and> (s \<noteq> [] \<longrightarrow>
              get_alerts keccak file rows (Some s)
                = Inr (filter (\<lambda>a. alert_severity a = s) unfiltered))
         \<and> (s \<noteq> [] \<and> s \<notin> {''low'', ''medium'', ''high'', ''critical''} \<longrightarrow>
              get_alerts keccak file rows (Some s) = Inr [])"
proof -
  obtain labels where "build_market_labels keccak Map.empty cfg = Inr labels"
    using build_market_labels_total [OF assms(2)] by blast
  then show ?thesis
    using alerts_loop_filter [of s labels] alerts_loop_unknown [of s labels]
    by (simp add: get_alerts_def assms(1) alerts_loop_empty_string)
qed

theorem get_alerts_severity_filter_witness:
  "get_alerts stub_digest FileMissing five_rows (Some ''bogus'') = Inr []
   \<and> get_alerts stub_digest FileMissing five_rows (Some ''high'')
       = Inr (filter (\<lambda>a. alert_severity a = ''high'') five_rows_alerts)"
proof -
  have "load_markets_config FileMissing = Inr []"
    by (simp add: load_markets_config_def load_markets_def)
  from get_alerts_severity_filter [OF this, of stub_digest five_rows "''bogus''"]
       get_alerts_severity_filter [OF this, of stub_digest five_rows "''high''"]
  show ?thesis
    by (simp add: get_alerts_five_rows_unfiltered five_rows_alerts_def)
qed

text \<open>
  The claim as written covers every value outside the four names. The empty string is
  such a value, and for it the endpoint answers all three alerts.
\<close>

theorem get_alerts_empty_severity_counterexample:
  "get_alerts stub_digest FileMissing five_rows (Some '''') = Inr five_rows_alerts
   \<and> five_rows_alerts \<noteq> []"
proof -
  have "get_alerts stub_digest FileMissing five_rows (Some '''')
          = get_alerts stub_digest FileMissing five_rows None"
    by (simp add: get_alerts_def alerts_loop_empty_string load_markets_config_def
                  load_markets_def)
  then show ?thesis
    by (simp add: get_alerts_five_rows_unfiltered) (simp add: five_rows_alerts_def)
qed

subsection \<open>Risk scores of the API\<close>

text \<open>
  Claim C4, as the code has it. A market object of the list or of the detail endpoint
  whose market has at least one row, and every point of the risk history, has
  \<open>riskScore = riskLevel \<times> 25 + 12.5\<close> (for every level below \<open>2^40\<close> in magnitude,
  where the float sum is exact), so 12.5, 37.5, 62.5, 87.5 for the levels 0 to 3. A market
  with no row at all has level 0, score 0.0 and no update time.
\<close>

theorem risk_score_of_level:
  "(get_markets keccak file rows = Inr ms \<and> m \<in> set ms
      \<and> (\<exists>r \<in> set rows. row_market_id r = api_calc_market_id keccak (m_label m))
      \<and> \<bar>riskLevel m\<bar> < 2 ^ 40
      \<longrightarrow> riskScore m = Fin (of_int (riskLevel m) * 25 + 25 / 2))
   \<and> (get_markets keccak file rows = Inr ms \<and> m \<in> set ms
      \<and> (\<forall>r \<in> set rows. row_market_id r \<noteq> api_calc_market_id keccak (m_label m))
      \<longrightarrow> riskLevel m = 0 \<and> riskScore m = Fin 0 \<and> lastUpdated m = None)
   \<and> (get_market_detail keccak file rows wanted = Inr d
      \<and> (\<exists>r \<in> set rows. row_market_id r = api_calc_market_id keccak wanted)
      \<and> \<bar>riskLevel d\<bar> < 2 ^ 40
      \<longrightarrow> riskScore d = Fin (of_int (riskLevel d) * 25 + 25 / 2))
   \<and> (get_market_detail keccak file rows wanted = Inr d
      \<and> (\<forall>r \<in> set rows. row_market_id r \<noteq> api_calc_market_id keccak wanted)
      \<longrightarrow> riskLevel d = 0 \<and> riskScore d = Fin 0 \<and> lastUpdated d = None)
   \<and> (get_risk_history keccak rows wanted hours cutoff = Inr ps \<and> pt \<in> set ps
      \<and> \<bar>point_level pt\<bar> < 2 ^ 40
      \<longrightarrow> point_score pt = Fin (of_int (point_level pt) * 25 + 25 / 2))
   \<and> score_of_level 0 = Inr (Fin (25 / 2)) \<and> score_of_level 1 = Inr (Fin (75 / 2))
   \<and> score_of_level 2 = Inr (Fin (125 / 2)) \<and> score_of_level 3 = Inr (Fin (175 / 2))"
proof -
  have latest: "score = Fin (of_int level * 25 + 25 / 2)"
    if "get_latest_risk_level rows mid = Inr (level, score, updated)"
      "\<exists>r \<in> set rows. row_market_id r = mid" "\<bar>level\<bar> < 2 ^ 40"
    for mid level score updated
    using get_latest_with_row [OF that(1,2)] score_of_level_small [OF that(3)] by simp
  have none: "level = 0 \<and> score = Fin 0 \<and> updated = None"
    if "get_latest_risk_level rows mid = Inr (level, score, updated)"
      "\<forall>r \<in> set rows. row_market_id r \<noteq> mid"
    for mid level score updated
    using that(1) get_latest_no_row [OF that(2)] by simp
  have loop: "get_markets_loop keccak rows cfg = Inr ms"
    if "get_markets keccak file rows = Inr ms" "load_markets_config file = Inr cfg" for cfg
    using that by (simp add: get_markets_def)
  have member: "get_latest_risk_level rows (api_calc_market_id keccak (m_label m))
                  = Inr (riskLevel m, riskScore m, lastUpdated m)"
    if "get_markets keccak file rows = Inr ms" "m \<in> set ms"
    using that get_markets_loop_member [of keccak rows _ ms m]
    by (auto simp: get_markets_def split: sum.splits)
  have hist: "point_score pt = Fin (of_int (point_level pt) * 25 + 25 / 2)"
    if "get_risk_history keccak rows wanted hours cutoff = Inr ps" "pt \<in> set ps"
      "\<bar>point_level pt\<bar> < 2 ^ 40"
  proof -
    have "score_of_level (point_level pt) = Inr (point_score pt)"
      using that(1,2) history_points_member [of _ ps pt]
      by (auto simp: get_risk_history_def split: if_splits)
    then show ?thesis using score_of_level_small [OF that(3)] by simp
  qed
  have vals: "score_of_level 0 = Inr (Fin (25 / 2))" "score_of_level 1 = Inr (Fin (75 / 2))"
    "score_of_level 2 = Inr (Fin (125 / 2))" "score_of_level 3 = Inr (Fin (175 / 2))"
    using score_of_level_small [of 0] score_of_level_small [of 1]
          score_of_level_small [of 2] score_of_level_small [of 3] by simp_all
  show ?thesis
    using latest [OF member] none [OF member] latest [OF get_market_detail_latest]
          none [OF get_market_detail_latest] hist vals
    by blast
qed

theorem risk_score_of_level_witness:
  "get_markets stub_digest one_pool_file one_pool_rows = Inr [rated_market]
   \<and> riskScore rated_market = Fin (of_int (riskLevel rated_market) * 25 + 25 / 2)"
proof -
  have g: "get_markets stub_digest one_pool_file one_pool_rows = Inr [rated_market]"
    by (rule get_markets_rated)
  have "\<exists>r \<in> set one_pool_rows. row_market_id r = api_calc_market_id stub_digest (m_label rated_market)"
    by (simp add: one_pool_rows_def rated_market_def)
  moreover have "\<bar>riskLevel rated_market\<bar> < 2 ^ 40" by (simp add: rated_market_def)
  ultimately show ?thesis
    using g risk_score_of_level [of stub_digest one_pool_file one_pool_rows "[rated_market]" rated_market]
    by simp
qed

text \<open>
  The claim as written includes markets with no row yet; for such a market the endpoint
  answers level 0 with score 0.0, not 12.5.
\<close>

theorem risk_score_without_rows_counterexample:
  "get_markets stub_digest one_pool_file [] = Inr [fresh_market]
   \<and> riskLevel fresh_market = 0
   \<and> riskScore fresh_market = Fin 0
   \<and> riskScore fresh_market \<noteq> Fin (of_int (riskLevel fresh_market) * 25 + 25 / 2)"
  by (simp add: get_markets_fresh) (simp add: fresh_market_def)

subsection \<open>Market identifiers\<close>

text \<open>
  Claim C6. Both \<open>calc_market_id\<close> functions are functions of the label alone, built on the
  same digest: the hex text the Monitor persists for a label is the key the API computes
  for it, the row that the Monitor's persist step appends carries exactly that key, and
  for a 32-byte digest the Monitor's id has 32 bytes.
\<close>

theorem calc_market_id_agree:
  "hexbytes_hex (monitor_calc_market_id keccak label) = api_calc_market_id keccak label
   \<and> (monitor_params_of keccak started file blocks_back = Inr params
        \<longrightarrow> mp_market_id params = monitor_calc_market_id keccak (mp_label params)
          \<and> row_market_id (last (st_risk_levels (fst (persist_and_publish params env st level))))
              = api_calc_market_id keccak (mp_label params))
   \<and> (length (keccak label) = 32
        \<longrightarrow> length (monitor_calc_market_id keccak label) = 32
          \<and> length (api_calc_market_id keccak label) = 66)"
proof -
  have "mp_market_id params = monitor_calc_market_id keccak (mp_label params)"
    if "monitor_params_of keccak started file blocks_back = Inr params"
    using that by (auto simp: monitor_params_of_def split: sum.splits option.splits)
  then show ?thesis
    by (simp add: monitor_calc_market_id_def api_calc_market_id_def persist_and_publish_rows
                  length_hexbytes_hex)
qed

theorem calc_market_id_agree_witness:
  "monitor_params_of stub_digest None one_pool_file 2000
     = Inr (example_params\<lparr>mp_whales := [], mp_cex_addresses := []\<rparr>)
   \<and> length (stub_digest ''UNISWAP_USDC_WETH'') = 32
   \<and> length (api_calc_market_id stub_digest ''UNISWAP_USDC_WETH'') = 66
   \<and> hexbytes_hex (mp_market_id example_params) = api_calc_market_id stub_digest ''UNISWAP_USDC_WETH''"
  using calc_market_id_agree [of stub_digest "''UNISWAP_USDC_WETH''" None one_pool_file 2000
          "example_params\<lparr>mp_whales := [], mp_cex_addresses := []\<rparr>"]
  by (simp add: monitor_params_of_def one_pool_file_def load_markets_def example_params_def
                stub_digest_def)

subsection \<open>The Monitor cycle\<close>

text \<open>
  Claim C1 does not hold of the code. Step 3 calls \<open>fetch_whale_metrics\<close> without the
  required \<open>pair_address\<close>, so the call raises \<open>TypeError\<close> whatever the environment is:
  a cycle whose swap fetch succeeds saves the swaps and then ends with that exception,
  and no cycle ever completes. In the worked first cycle the state left behind holds the
  one swap and nothing else.
\<close>

theorem monitor_cycle_whale_call_raises:
  "call_fetch_whale_metrics (chain env) (mp_whales params) (mp_cex_addresses params) None
     (Some (mp_blocks_back params)) (Some ''mainnet'') = Inl TypeError
   \<and> monitor_cycle params (env\<lparr>recent_swaps := Inr trades\<rparr>) st
       = (save_trades trades st, Some TypeError)
   \<and> snd (monitor_cycle params env st) \<noteq> None
   \<and> monitor_cycle example_params example_cycle initial_state
       = (initial_state\<lparr>st_trades := [example_swap]\<rparr>, Some TypeError)"
  by (simp add: monitor_cycle_outcome call_fetch_whale_metrics_def example_cycle_def
                save_trades_def initial_state_def split: sum.splits)

text \<open>
  Claim C7 does not hold of the code either, for the same reason: the cycle ends at step 3,
  before the row is saved and before the contract is updated. Whatever the environment,
  a cycle, and any run of cycles, leaves the \<open>risk_levels\<close> table, the transactions sent
  and \<open>last_level\<close> as they were; in the worked first cycle, with \<open>last_level\<close> unset, no row
  is written and no transaction is sent.
\<close>

theorem monitor_cycle_never_persists:
  "st_risk_levels (fst (monitor_cycle params env st)) = st_risk_levels st
   \<and> st_sent (fst (monitor_cycle params env st)) = st_sent st
   \<and> st_last_level (fst (monitor_cycle params env st)) = st_last_level st
   \<and> st_risk_levels (fst (monitor_run params envs st)) = st_risk_levels st
   \<and> st_sent (fst (monitor_run params envs st)) = st_sent st
   \<and> st_last_level initial_state = None
   \<and> st_risk_levels (fst (monitor_cycle example_params example_cycle initial_state)) = []
   \<and> st_sent (fst (monitor_cycle example_params example_cycle initial_state)) = []"
  using monitor_run_tables [of params envs st]
  by (simp add: monitor_cycle_outcome save_trades_def initial_state_def split: sum.splits)

end
